theory Spec2Isabelle
  imports Complex_Main "HOL-Library.AList" "HOL-Library.Product_Lexorder"
begin

section \<open>Purchase planning wizard: data model\<close>

text \<open>
  The wizard of \<^verbatim>\<open>wizards/purchase_planning.py\<close> runs on top of a business-object
  platform. Records of the platform are referred to by their numeric identity; a recordset
  is the list of its identities (in order, duplicates possible after \<^verbatim>\<open>+\<close>). The
  fields of the platform's records that the wizard reads are the components of \<open>env\<close>.

  Dates are proleptic Gregorian day numbers, timestamps are microseconds counted from the
  start of day number 0, and quantities (the platform's floats) are rationals: rounding
  is not modelled.
\<close>

type_synonym date = int
type_synonym datetime = int
type_synonym quantity = rat

datatype error = ZeroDivisionError | OverflowError | KeyError

text \<open>
  A vendor-product association (\<^verbatim>\<open>product.supplierinfo\<close>). Its vendor \<open>si_name\<close> is a
  required reference in the platform's schema, so it is never empty; the template and the
  variant references may be empty.
\<close>

record supplierinfo =
  si_name :: nat
  si_product_tmpl_id :: "nat option"
  si_product_id :: "nat option"
  si_price :: quantity
  si_currency_id :: "nat option"
  si_min_qty :: quantity
  si_date_start :: "date option"
  si_date_end :: "date option"

text \<open>
  A line of the movement ledger (\<^verbatim>\<open>stock.move.line\<close>), with the dotted paths the
  domain follows already resolved: \<open>ml_location_usage\<close> is \<^verbatim>\<open>location_id.usage\<close>,
  \<open>ml_location_dest_usage\<close> is \<^verbatim>\<open>location_dest_id.usage\<close> and \<open>ml_warehouse_id\<close> is
  \<^verbatim>\<open>picking_id.picking_type_id.warehouse_id\<close>, empty when a link of the path is.
\<close>

record move_line =
  ml_product_id :: nat
  ml_date :: datetime
  ml_location_usage :: string
  ml_location_dest_usage :: string
  ml_state :: string
  ml_warehouse_id :: "nat option"
  ml_qty_done :: quantity

record env =
  commercial_partner_id :: "nat \<Rightarrow> nat"
  supplierinfo_table :: "supplierinfo list"
  tmpl_active :: "nat \<Rightarrow> bool"
  tmpl_purchase_ok :: "nat \<Rightarrow> bool"
  product_variant_ids :: "nat \<Rightarrow> nat list"
  product_table :: "nat list"
  active :: "nat \<Rightarrow> bool"
  purchase_ok :: "nat \<Rightarrow> bool"
  categ_id :: "nat \<Rightarrow> nat"
  product_tmpl_id :: "nat \<Rightarrow> nat"
  qty_available :: "nat \<Rightarrow> nat option \<Rightarrow> quantity"
  virtual_available :: "nat \<Rightarrow> nat option \<Rightarrow> quantity"
  move_line_table :: "move_line list"
  today :: date

text \<open>The transient model \<^verbatim>\<open>purchase.planning\<close>: one planning request.\<close>

record wizard =
  partner_id :: "nat option"
  date_begin :: date
  date_end :: date
  show_all_partner_products :: bool
  show_all_products :: bool
  product_category_ids :: "nat list"
  warehouse_ids :: "nat list"

text \<open>
  The dictionaries handled by \<^verbatim>\<open>_find_move_line\<close> and \<^verbatim>\<open>action_show_results\<close>: every
  one has the key \<^verbatim>\<open>product_id\<close>; each other key is present (\<open>Some\<close>) or absent.
\<close>

record vals =
  v_id :: "nat option"
  v_product_id :: nat
  v_product_id_count :: "nat option"
  v_qty_done :: "quantity option"
  v_qty_received :: "quantity option"
  v_times_received :: "nat option"
  v_qty_delivered :: "quantity option"
  v_times_delivered :: "nat option"

text \<open>The model \<^verbatim>\<open>purchase.planning.line\<close>: one row of the report.\<close>

record planning_line =
  line_product_id :: nat
  line_currency_id :: "nat option"
  line_partner_id :: "nat option"
  price_unit :: quantity
  times_delivered :: nat
  times_received :: nat
  units_received :: quantity
  units_delivered :: quantity
  units_avg_delivered :: quantity
  units_available :: quantity
  units_virtual_available :: quantity

section \<open>Platform operations used by the wizard\<close>

text \<open>
  \<^verbatim>\<open>mapped\<close> on a relational field returns the union of the values: each record once,
  at its first position.
\<close>

definition union_ids :: "nat list \<Rightarrow> nat list" where
  "union_ids xs = rev (remdups (rev xs))"

fun option_ids :: "nat option list \<Rightarrow> nat list" where
  "option_ids [] = []"
| "option_ids (None # xs) = option_ids xs"
| "option_ids (Some x # xs) = x # option_ids xs"

text \<open>Search domains: a list of leaves, all of which a record has to satisfy.\<close>

datatype leaf =
    Product_id_in "nat list"
  | Date_ge datetime
  | Date_le datetime
  | Location_usage_eq string
  | Location_dest_usage_eq string
  | State_eq string
  | Warehouse_id_in "nat list"

fun leaf_holds :: "move_line \<Rightarrow> leaf \<Rightarrow> bool" where
  "leaf_holds ml (Product_id_in ids) = (ml_product_id ml \<in> set ids)"
| "leaf_holds ml (Date_ge t) = (t \<le> ml_date ml)"
| "leaf_holds ml (Date_le t) = (ml_date ml \<le> t)"
| "leaf_holds ml (Location_usage_eq u) = (ml_location_usage ml = u)"
| "leaf_holds ml (Location_dest_usage_eq u) = (ml_location_dest_usage ml = u)"
| "leaf_holds ml (State_eq s) = (ml_state ml = s)"
| "leaf_holds ml (Warehouse_id_in ids) =
     (case ml_warehouse_id ml of None \<Rightarrow> False | Some wh \<Rightarrow> wh \<in> set ids)"

definition domain_holds :: "leaf list \<Rightarrow> move_line \<Rightarrow> bool" where
  "domain_holds domain ml = list_all (leaf_holds ml) domain"

datatype product_leaf = Purchase_ok_eq bool | Categ_id_in "nat list"

fun product_leaf_holds :: "env \<Rightarrow> nat \<Rightarrow> product_leaf \<Rightarrow> bool" where
  "product_leaf_holds e p (Purchase_ok_eq b) = (purchase_ok e p = b)"
| "product_leaf_holds e p (Categ_id_in ids) = (categ_id e p \<in> set ids)"

text \<open>
  \<^verbatim>\<open>env["product.product"].search(domain)\<close>: the platform adds the test on \<^verbatim>\<open>active\<close>
  to every search of a model that has the field.
\<close>

definition search_products :: "env \<Rightarrow> product_leaf list \<Rightarrow> nat list" where
  "search_products e domain =
     filter (\<lambda>p. active e p \<and> list_all (product_leaf_holds e p) domain) (product_table e)"

text \<open>
  One group of the platform's grouped aggregation \<^verbatim>\<open>read_group\<close>: the product, the
  number of lines of the group (\<^verbatim>\<open>product_id_count\<close>) and the sum of their
  \<^verbatim>\<open>qty_done\<close>.
\<close>

record read_group_result =
  g_product_id :: nat
  g_product_id_count :: nat
  g_qty_done :: quantity

text \<open>
  Modelled from the spec: the platform's grouped aggregation \<^verbatim>\<open>read_group\<close> is not part
  of the source. It groups the ledger lines that satisfy the domain by product and gives
  one group for each product with at least one such line. The order of the groups is
  left open there; they are listed by ascending product identity.
\<close>

definition read_group :: "env \<Rightarrow> leaf list \<Rightarrow> read_group_result list" where
  "read_group e domain =
     (let lines = filter (domain_holds domain) (move_line_table e)
      in map (\<lambda>p. \<lparr>g_product_id = p,
                    g_product_id_count = length (filter (\<lambda>ml. ml_product_id ml = p) lines),
                    g_qty_done = sum_list (map ml_qty_done (filter (\<lambda>ml. ml_product_id ml = p) lines))\<rparr>)
           (sort (remdups (map ml_product_id lines))))"

text \<open>
  Modelled from the spec: which vendor-product associations are for a product is decided
  by the platform, outside the source. An association is for a product when it names the
  product as its variant or, naming no variant, names the template of the product.
\<close>

definition seller_for_product :: "env \<Rightarrow> nat \<Rightarrow> supplierinfo \<Rightarrow> bool" where
  "seller_for_product e p si =
     (case si_product_id si of
        Some q \<Rightarrow> q = p
      | None \<Rightarrow> si_product_tmpl_id si = Some (product_tmpl_id e p))"

text \<open>
  Modelled from the spec: when an association is applicable for a vendor, a date and a
  quantity is decided by the platform, outside the source. It is when its vendor is the
  given one (any vendor when none is given), the date is within its validity and the
  quantity reaches its minimal quantity.
\<close>

definition seller_applicable :: "nat option \<Rightarrow> date \<Rightarrow> quantity \<Rightarrow> supplierinfo \<Rightarrow> bool" where
  "seller_applicable partner d quantity si =
     ((case partner of None \<Rightarrow> True | Some v \<Rightarrow> si_name si = v)
      \<and> (case si_date_start si of None \<Rightarrow> True | Some s \<Rightarrow> s \<le> d)
      \<and> (case si_date_end si of None \<Rightarrow> True | Some s \<Rightarrow> d \<le> s)
      \<and> si_min_qty si \<le> quantity)"

text \<open>
  Modelled from the spec: the platform's seller resolver \<^verbatim>\<open>_select_seller\<close> is not part
  of the source. Among the vendor-product associations for the product it chooses one
  that is applicable for the given vendor, date and quantity; it returns the empty seller
  when there is none.
\<close>

definition select_seller :: "env \<Rightarrow> nat \<Rightarrow> nat option \<Rightarrow> date \<Rightarrow> quantity \<Rightarrow> supplierinfo option" where
  "select_seller e p partner d quantity =
     List.find (\<lambda>si. seller_for_product e p si \<and> seller_applicable partner d quantity si)
       (supplierinfo_table e)"

text \<open>
  Python's calendar: \<^verbatim>\<open>date.max\<close> is day number 3652059 (9999-12-31); adding a day to it
  raises \<^verbatim>\<open>OverflowError\<close>. \<^verbatim>\<open>datetime.combine\<close> puts a time of day, in microseconds,
  on a date.
\<close>

definition date_max :: date where
  "date_max = 3652059"

definition add_days :: "date \<Rightarrow> int \<Rightarrow> error + date" where
  "add_days d n = (if d + n > date_max then Inl OverflowError else Inr (d + n))"

definition time_min :: int where
  "time_min = 0"

definition time_max :: int where
  "time_max = 86399999999"

definition combine :: "date \<Rightarrow> int \<Rightarrow> datetime" where
  "combine d t = d * 86400000000 + t"

text \<open>Python's \<^verbatim>\<open>/\<close> raises on a zero divisor.\<close>

definition truediv :: "quantity \<Rightarrow> int \<Rightarrow> error + quantity" where
  "truediv a b = (if b = 0 then Inl ZeroDivisionError else Inr (a / of_int b))"

text \<open>\<^verbatim>\<open>d.get(key, 0)\<close> on an optional key.\<close>

definition get_qty :: "quantity option \<Rightarrow> quantity" where
  "get_qty v = (case v of None \<Rightarrow> 0 | Some q \<Rightarrow> q)"

definition get_times :: "nat option \<Rightarrow> nat" where
  "get_times v = (case v of None \<Rightarrow> 0 | Some n \<Rightarrow> n)"

section \<open>The wizard\<close>

definition onchange_show_all_products :: "wizard \<Rightarrow> wizard" where
  "onchange_show_all_products w =
     (if show_all_products w
      then w\<lparr>show_all_partner_products := False, partner_id := None\<rparr>
      else w)"

definition get_total_days :: "wizard \<Rightarrow> error + int" where
  "get_total_days w =
     (case add_days (date_end w) 1 of
        Inl e \<Rightarrow> Inl e
      | Inr d \<Rightarrow> Inr (d - date_begin w))"

definition get_supplier_products :: "env \<Rightarrow> wizard \<Rightarrow> nat list" where
  "get_supplier_products e w =
     (let partner = map_option (commercial_partner_id e) (partner_id w);
          supplierinfos = filter (\<lambda>si. Some (si_name si) = partner) (supplierinfo_table e);
          product_tmpls = filter (\<lambda>x. tmpl_active e x \<and> tmpl_purchase_ok e x)
                            (union_ids (option_ids (map si_product_tmpl_id supplierinfos)));
          products = filter (\<lambda>x. active e x \<and> purchase_ok e x)
                       (union_ids (option_ids (map si_product_id supplierinfos)))
      in products @ union_ids (concat (map (product_variant_ids e) product_tmpls)))"

definition get_products :: "env \<Rightarrow> wizard \<Rightarrow> nat list" where
  "get_products e w =
     (let products = get_supplier_products e w
      in if product_category_ids w \<noteq> []
         then filter (\<lambda>x. categ_id e x \<in> set (product_category_ids w)) products
         else products)"

definition get_move_line_domain :: "wizard \<Rightarrow> nat list \<Rightarrow> string \<Rightarrow> string \<Rightarrow> leaf list" where
  "get_move_line_domain w products src dst =
     [Product_id_in products,
      Date_ge (combine (date_begin w) time_min),
      Date_le (combine (date_end w) time_max),
      Location_usage_eq src,
      Location_dest_usage_eq dst,
      State_eq ''done'']
     @ (if warehouse_ids w \<noteq> [] then [Warehouse_id_in (warehouse_ids w)] else [])"

definition get_all_products_domain :: "wizard \<Rightarrow> product_leaf list" where
  "get_all_products_domain w =
     [Purchase_ok_eq True]
     @ (if product_category_ids w \<noteq> [] then [Categ_id_in (product_category_ids w)] else [])"

text \<open>
  \<^verbatim>\<open>sorted(found_lines, key=..., reverse=True)\<close>: Python's stable sort, descending; with
  \<^verbatim>\<open>reverse=True\<close> equal keys keep their original order.
\<close>

definition manual_ordering :: "read_group_result list \<Rightarrow> read_group_result list" where
  "manual_ordering found_lines =
     rev (sort_key (\<lambda>res. (g_product_id_count res, g_qty_done res)) (rev found_lines))"

text \<open>
  The list comprehension of \<^verbatim>\<open>_find_move_line\<close>: \<open>found_line\<close> is the dictionary
  built for one group, and \<^verbatim>\<open>product_dict[...]\<close> raises \<^verbatim>\<open>KeyError\<close> for a group whose
  product is not among \<open>products\<close>.
\<close>

definition found_line :: "read_group_result \<Rightarrow> vals" where
  "found_line x =
     \<lparr>v_id = Some (g_product_id x),
      v_product_id = g_product_id x,
      v_product_id_count = Some (g_product_id_count x),
      v_qty_done = Some (g_qty_done x),
      v_qty_received = None,
      v_times_received = None,
      v_qty_delivered = None,
      v_times_delivered = None\<rparr>"

fun found_line_dicts :: "nat list \<Rightarrow> read_group_result list \<Rightarrow> error + vals list" where
  "found_line_dicts products [] = Inr []"
| "found_line_dicts products (x # xs) =
     (if g_product_id x \<in> set products
      then (case found_line_dicts products xs of
              Inl e \<Rightarrow> Inl e
            | Inr ls \<Rightarrow> Inr (found_line x # ls))
      else Inl KeyError)"

text \<open>The entry \<^verbatim>\<open>{"product_id": product}\<close> of a product without movements.\<close>

definition product_only :: "nat \<Rightarrow> vals" where
  "product_only p =
     \<lparr>v_id = None, v_product_id = p, v_product_id_count = None, v_qty_done = None,
      v_qty_received = None, v_times_received = None,
      v_qty_delivered = None, v_times_delivered = None\<rparr>"

text \<open>
  \<^verbatim>\<open>_find_move_line\<close>, with the ordering step of the intermediate list as the parameter
  \<open>arrange\<close>. A
  Python dictionary is an association list in insertion order: \<open>AList.update\<close> replaces
  the value of a key in place and appends a new key. The key \<^verbatim>\<open>line["id"]\<close> of an entry
  is the identity of its \<^verbatim>\<open>line["product_id"]\<close>.
\<close>

definition find_move_line_with ::
  "(read_group_result list \<Rightarrow> read_group_result list) \<Rightarrow> env \<Rightarrow> wizard \<Rightarrow> string \<Rightarrow> string
     \<Rightarrow> error + (nat \<times> vals) list" where
  "find_move_line_with arrange e w src dst =
     (let products = get_products e w;
          domain = get_move_line_domain w products src dst;
          found_lines = arrange (read_group e domain)
      in case found_line_dicts products found_lines of
           Inl err \<Rightarrow> Inl err
         | Inr found_lines \<Rightarrow>
             (let found_lines = fold (\<lambda>line d. AList.update (v_product_id line) line d) found_lines [];
                  products = (if show_all_products w
                              then products @ search_products e (get_all_products_domain w)
                              else products)
              in Inr (if show_all_partner_products w \<or> show_all_products w
                      then fold (\<lambda>product d. AList.update product (product_only product) d)
                             (filter (\<lambda>p. p \<notin> fst ` set found_lines) products) found_lines
                      else found_lines)))"

definition find_move_line :: "env \<Rightarrow> wizard \<Rightarrow> string \<Rightarrow> string \<Rightarrow> error + (nat \<times> vals) list" where
  "find_move_line = find_move_line_with manual_ordering"

definition prepare_wizard_line :: "env \<Rightarrow> wizard \<Rightarrow> vals \<Rightarrow> error + planning_line" where
  "prepare_wizard_line e w v =
     (let product_id = v_product_id v;
          units_available =
            (if warehouse_ids w \<noteq> []
             then sum_list (map (\<lambda>wh. qty_available e product_id (Some wh)) (warehouse_ids w))
             else qty_available e product_id None);
          units_virtual_available =
            (if warehouse_ids w \<noteq> []
             then sum_list (map (\<lambda>wh. virtual_available e product_id (Some wh)) (warehouse_ids w))
             else virtual_available e product_id None);
          seller = select_seller e product_id (partner_id w) (today e) 1;
          price_unit = (case seller of None \<Rightarrow> 0 | Some si \<Rightarrow> si_price si);
          currency_id = (case seller of None \<Rightarrow> None | Some si \<Rightarrow> si_currency_id si);
          vendor_id = map_option si_name seller
      in case get_total_days w of
           Inl err \<Rightarrow> Inl err
         | Inr total_days \<Rightarrow>
             (case truediv (get_qty (v_qty_delivered v)) total_days of
                Inl err \<Rightarrow> Inl err
              | Inr avg \<Rightarrow>
                  Inr \<lparr>line_product_id = product_id,
                       line_currency_id = currency_id,
                       line_partner_id = vendor_id,
                       price_unit = price_unit,
                       times_delivered = get_times (v_times_delivered v),
                       times_received = get_times (v_times_received v),
                       units_received = get_qty (v_qty_received v),
                       units_delivered = get_qty (v_qty_delivered v),
                       units_avg_delivered = avg,
                       units_available = units_available,
                       units_virtual_available = units_virtual_available\<rparr>))"

text \<open>The first loop of \<^verbatim>\<open>action_show_results\<close>: the received side of every entry.\<close>

definition set_received :: "(nat \<times> vals) list \<Rightarrow> (nat \<times> vals) list" where
  "set_received found_dict =
     map (\<lambda>(product, line).
            (product, line\<lparr>v_qty_received := Some (get_qty (v_qty_done line)),
                           v_times_received := Some (get_times (v_product_id_count line))\<rparr>))
       found_dict"

text \<open>One round of the second loop: merging one entry of the delivered dictionary.\<close>

definition merge_delivered :: "nat \<times> vals \<Rightarrow> (nat \<times> vals) list \<Rightarrow> (nat \<times> vals) list" where
  "merge_delivered entry found_dict =
     (let product = fst entry;
          line = snd entry;
          found_dict = (if map_of found_dict product = None
                        then AList.update product line found_dict
                        else found_dict)
      in AList.map_entry product
           (\<lambda>cur. cur\<lparr>v_qty_delivered := Some (get_qty (v_qty_done line)),
                      v_times_delivered := Some (get_times (v_product_id_count line))\<rparr>)
           found_dict)"

text \<open>The third loop: one row is created for each entry; an exception ends the action.\<close>

fun create_lines :: "env \<Rightarrow> wizard \<Rightarrow> (nat \<times> vals) list \<Rightarrow> planning_line list
    \<Rightarrow> error + planning_line list" where
  "create_lines e w [] table = Inr table"
| "create_lines e w (entry # rest) table =
     (case prepare_wizard_line e w (snd entry) of
        Inl err \<Rightarrow> Inl err
      | Inr new_line \<Rightarrow> create_lines e w rest (table @ [new_line]))"

text \<open>
  \<^verbatim>\<open>lines_obj.search([])\<close> finds every row of the table, and \<^verbatim>\<open>unlink\<close> deletes
  the rows it is called on.
\<close>

definition search_all :: "planning_line list \<Rightarrow> planning_line list" where
  "search_all table = table"

definition unlink :: "planning_line list \<Rightarrow> planning_line list \<Rightarrow> planning_line list" where
  "unlink records table = filter (\<lambda>r. r \<notin> set records) table"

text \<open>
  \<^verbatim>\<open>action_show_results\<close> as a function from the report table before the action to the
  table after it, or to the exception raised. The dictionaries are built by
  \<open>find_move_line_with arrange\<close>.
\<close>

definition action_show_results_with ::
  "(read_group_result list \<Rightarrow> read_group_result list) \<Rightarrow> env \<Rightarrow> wizard \<Rightarrow> planning_line list
     \<Rightarrow> error + planning_line list" where
  "action_show_results_with arrange e w table =
     (let table = unlink (search_all table) table
      in case find_move_line_with arrange e w ''supplier'' ''internal'' of
           Inl err \<Rightarrow> Inl err
         | Inr found_dict \<Rightarrow>
             (let found_dict = set_received found_dict
              in case find_move_line_with arrange e w ''internal'' ''customer'' of
                   Inl err \<Rightarrow> Inl err
                 | Inr found_delivered_dict \<Rightarrow>
                     create_lines e w (fold merge_delivered found_delivered_dict found_dict) table))"

definition action_show_results :: "env \<Rightarrow> wizard \<Rightarrow> planning_line list \<Rightarrow> error + planning_line list" where
  "action_show_results = action_show_results_with manual_ordering"

text \<open>
  The same action without the manual ordering of the intermediate lists, to compare with.
\<close>

definition action_show_results_unsorted ::
  "env \<Rightarrow> wizard \<Rightarrow> planning_line list \<Rightarrow> error + planning_line list" where
  "action_show_results_unsorted = action_show_results_with (\<lambda>found_lines. found_lines)"

text \<open>
  Reading the report. The model declares \<^verbatim>\<open>_order = "product_id"\<close>, a reference to
  a product, so the rows are read in the order of their products. The order of the
  products is the product model's own, kept by the platform, and not part of the source:
  it is the parameter \<open>product_order\<close>, the place of each product in that order. Rows
  of products at the same place stay in the order of their creation.
\<close>

definition search_lines :: "(nat \<Rightarrow> 'k::linorder) \<Rightarrow> planning_line list \<Rightarrow> planning_line list" where
  "search_lines product_order table =
     sort_key (\<lambda>r. product_order (line_product_id r)) table"

section \<open>Notions used in the statements\<close>

text \<open>
  The ledger lines of one product that the domain of \<^verbatim>\<open>_find_move_line\<close> selects, and
  the recordset \<open>products\<close> as it is at the end of \<^verbatim>\<open>_find_move_line\<close>.
\<close>

definition movements :: "env \<Rightarrow> wizard \<Rightarrow> string \<Rightarrow> string \<Rightarrow> nat \<Rightarrow> move_line list" where
  "movements e w src dst p =
     filter (\<lambda>ml. domain_holds (get_move_line_domain w (get_products e w) src dst) ml
                  \<and> ml_product_id ml = p)
       (move_line_table e)"

definition shown_products :: "env \<Rightarrow> wizard \<Rightarrow> nat list" where
  "shown_products e w =
     (if show_all_products w
      then get_products e w @ search_products e (get_all_products_domain w)
      else get_products e w)"

section \<open>A sample database and sample requests\<close>

text \<open>
  Vendor 1 sells template 10 (variants 101 and 102) and, by a second association, variant
  101 itself. Product 103 is purchasable and has no vendor. In the three days 738000 to
  738002 product 101 is delivered twice (20 and 10 units), product 102 is received once
  (10 units) and product 103 is delivered once (5 units).
\<close>

definition example_env :: env where
  "example_env =
     \<lparr>commercial_partner_id = (\<lambda>p. p),
      supplierinfo_table =
        [\<lparr>si_name = 1, si_product_tmpl_id = Some 10, si_product_id = None, si_price = 3,
          si_currency_id = Some 2, si_min_qty = 0, si_date_start = None, si_date_end = None\<rparr>,
         \<lparr>si_name = 1, si_product_tmpl_id = Some 10, si_product_id = Some 101, si_price = 4,
          si_currency_id = Some 2, si_min_qty = 0, si_date_start = None, si_date_end = None\<rparr>],
      tmpl_active = (\<lambda>t. True),
      tmpl_purchase_ok = (\<lambda>t. True),
      product_variant_ids = (\<lambda>t. if t = 10 then [101, 102] else if t = 11 then [103] else []),
      product_table = [101, 102, 103],
      active = (\<lambda>p. True),
      purchase_ok = (\<lambda>p. True),
      categ_id = (\<lambda>p. 1),
      product_tmpl_id = (\<lambda>p. if p = 103 then 11 else 10),
      qty_available = (\<lambda>p wh. 7),
      virtual_available = (\<lambda>p wh. 9),
      move_line_table =
        [\<lparr>ml_product_id = 101, ml_date = combine 738000 500, ml_location_usage = ''internal'',
          ml_location_dest_usage = ''customer'', ml_state = ''done'', ml_warehouse_id = Some 1,
          ml_qty_done = 20\<rparr>,
         \<lparr>ml_product_id = 101, ml_date = combine 738002 time_max, ml_location_usage = ''internal'',
          ml_location_dest_usage = ''customer'', ml_state = ''done'', ml_warehouse_id = Some 1,
          ml_qty_done = 10\<rparr>,
         \<lparr>ml_product_id = 102, ml_date = combine 738001 0, ml_location_usage = ''supplier'',
          ml_location_dest_usage = ''internal'', ml_state = ''done'', ml_warehouse_id = None,
          ml_qty_done = 10\<rparr>,
         \<lparr>ml_product_id = 103, ml_date = combine 738001 0, ml_location_usage = ''internal'',
          ml_location_dest_usage = ''customer'', ml_state = ''done'', ml_warehouse_id = None,
          ml_qty_done = 5\<rparr>],
      today = 738010\<rparr>"

definition example_wizard :: wizard where
  "example_wizard =
     \<lparr>partner_id = Some 1, date_begin = 738000, date_end = 738002,
      show_all_partner_products = True, show_all_products = False,
      product_category_ids = [], warehouse_ids = []\<rparr>"

text \<open>The same request with the two dates the other way round, one day apart.\<close>

definition reversed_wizard :: wizard where
  "reversed_wizard = example_wizard\<lparr>date_begin := 738000, date_end := 737999\<rparr>"

text \<open>
  A request for every purchasable product, as \<^verbatim>\<open>onchange_show_all_products\<close> leaves it.
\<close>

definition all_products_wizard :: wizard where
  "all_products_wizard =
     \<lparr>partner_id = None, date_begin = 738000, date_end = 738002,
      show_all_partner_products = False, show_all_products = True,
      product_category_ids = [], warehouse_ids = []\<rparr>"

text \<open>
  The two aggregates and the rows of \<open>example_wizard\<close> on \<open>example_env\<close>, as
  \<^verbatim>\<open>action_show_results\<close> computes them.
\<close>

definition example_received :: "(nat \<times> vals) list" where
  "example_received =
     [(102, found_line \<lparr>g_product_id = 102, g_product_id_count = 1, g_qty_done = 10\<rparr>),
      (101, product_only 101)]"

definition example_delivered :: "(nat \<times> vals) list" where
  "example_delivered =
     [(101, found_line \<lparr>g_product_id = 101, g_product_id_count = 2, g_qty_done = 30\<rparr>),
      (102, product_only 102)]"

definition example_rows :: "planning_line list" where
  "example_rows =
     [\<lparr>line_product_id = 102, line_currency_id = Some 2, line_partner_id = Some 1,
       price_unit = 3, times_delivered = 0, times_received = 1, units_received = 10,
       units_delivered = 0, units_avg_delivered = 0, units_available = 7,
       units_virtual_available = 9\<rparr>,
      \<lparr>line_product_id = 101, line_currency_id = Some 2, line_partner_id = Some 1,
       price_unit = 3, times_delivered = 2, times_received = 0, units_received = 0,
       units_delivered = 30, units_avg_delivered = 10, units_available = 7,
       units_virtual_available = 9\<rparr>]"

text \<open>
  A second ledger, where product 101 is also received once (1 unit) and product 102 once
  more (2 units): by ascending product the received groups are 101, 102, and by
  descending count they are 102, 101.
\<close>

definition busy_env :: env where
  "busy_env =
     example_env\<lparr>move_line_table :=
       move_line_table example_env @
         [\<lparr>ml_product_id = 101, ml_date = combine 738001 0, ml_location_usage = ''supplier'',
           ml_location_dest_usage = ''internal'', ml_state = ''done'', ml_warehouse_id = None,
           ml_qty_done = 1\<rparr>,
          \<lparr>ml_product_id = 102, ml_date = combine 738002 0, ml_location_usage = ''supplier'',
           ml_location_dest_usage = ''internal'', ml_state = ''done'', ml_warehouse_id = None,
           ml_qty_done = 2\<rparr>]\<rparr>"

text \<open>The rows of \<open>example_wizard\<close> on \<open>busy_env\<close>, in the order of their creation.\<close>

definition busy_rows :: "planning_line list" where
  "busy_rows =
     [\<lparr>line_product_id = 102, line_currency_id = Some 2, line_partner_id = Some 1,
       price_unit = 3, times_delivered = 0, times_received = 2, units_received = 12,
       units_delivered = 0, units_avg_delivered = 0, units_available = 7,
       units_virtual_available = 9\<rparr>,
      \<lparr>line_product_id = 101, line_currency_id = Some 2, line_partner_id = Some 1,
       price_unit = 3, times_delivered = 2, times_received = 1, units_received = 1,
       units_delivered = 30, units_avg_delivered = 10, units_available = 7,
       units_virtual_available = 9\<rparr>]"

text \<open>
  A product order of the sample database that does not follow the identities, as when
  the products are ordered by their references: product 102 comes before product 101.
\<close>

definition example_product_order :: "nat \<Rightarrow> nat" where
  "example_product_order p = (if p = 102 then 1 else if p = 101 then 2 else p + 2)"

section \<open>The aggregator\<close>

lemma unlink_search_all: "unlink (search_all table) table = []"
  by (simp add: unlink_def search_all_def)

lemma read_group_keys:
  "map g_product_id (read_group e domain) =
     sort (remdups (map ml_product_id (filter (domain_holds domain) (move_line_table e))))"
  by (simp add: read_group_def Let_def comp_def)

lemma distinct_read_group: "distinct (map g_product_id (read_group e domain))"
  by (simp add: read_group_keys)

lemma read_group_subset:
  "g_product_id ` set (read_group e (get_move_line_domain w products src dst)) \<subseteq> set products"
  by (auto simp: read_group_def Let_def domain_holds_def get_move_line_domain_def)

lemma map_of_read_group:
  "map_of (map (\<lambda>g. (g_product_id g, found_line g)) (read_group e domain)) p
     = (if filter (\<lambda>ml. domain_holds domain ml \<and> ml_product_id ml = p) (move_line_table e) = []
        then None
        else Some (found_line
               \<lparr>g_product_id = p,
                g_product_id_count =
                  length (filter (\<lambda>ml. domain_holds domain ml \<and> ml_product_id ml = p)
                            (move_line_table e)),
                g_qty_done =
                  sum_list (map ml_qty_done
                    (filter (\<lambda>ml. domain_holds domain ml \<and> ml_product_id ml = p)
                       (move_line_table e)))\<rparr>))"
proof -
  let ?lines = "filter (domain_holds domain) (move_line_table e)"
  let ?G = "\<lambda>p. \<lparr>g_product_id = p,
                 g_product_id_count = length (filter (\<lambda>ml. ml_product_id ml = p) ?lines),
                 g_qty_done = sum_list (map ml_qty_done (filter (\<lambda>ml. ml_product_id ml = p) ?lines))\<rparr>"
  have "map (\<lambda>g. (g_product_id g, found_line g)) (read_group e domain)
          = map (\<lambda>k. (k, found_line (?G k))) (sort (remdups (map ml_product_id ?lines)))"
    by (simp add: read_group_def Let_def comp_def)
  then have "map_of (map (\<lambda>g. (g_product_id g, found_line g)) (read_group e domain)) p
          = ((Some \<circ> (\<lambda>k. found_line (?G k))) |` set (sort (remdups (map ml_product_id ?lines)))) p"
    by (simp only: map_of_map_restrict)
  also have "\<dots> = (if p \<in> ml_product_id ` set ?lines then Some (found_line (?G p)) else None)"
    by (simp add: restrict_map_def)
  also have "p \<in> ml_product_id ` set ?lines
      \<longleftrightarrow> filter (\<lambda>ml. domain_holds domain ml \<and> ml_product_id ml = p) (move_line_table e) \<noteq> []"
    by (auto simp: filter_empty_conv)
  finally show ?thesis by simp
qed

lemma found_line_dicts_Inr:
  "g_product_id ` set xs \<subseteq> set products \<Longrightarrow> found_line_dicts products xs = Inr (map found_line xs)"
  by (induction xs) auto

lemma update_fresh: "k \<notin> fst ` set d \<Longrightarrow> AList.update k v d = d @ [(k, v)]"
  by (induction d) auto

lemma fold_update_fresh:
  "distinct (map v_product_id ls) \<Longrightarrow> v_product_id ` set ls \<inter> fst ` set d = {} \<Longrightarrow>
   fold (\<lambda>line d. AList.update (v_product_id line) line d) ls d
     = d @ map (\<lambda>l. (v_product_id l, l)) ls"
proof (induction ls arbitrary: d)
  case Nil
  then show ?case by simp
next
  case (Cons l ls)
  have fresh: "v_product_id l \<notin> fst ` set d"
    using Cons.prems(2) by auto
  have "v_product_id ` set ls \<inter> fst ` set (d @ [(v_product_id l, l)]) = {}"
    using Cons.prems by auto
  with Cons.IH [of "d @ [(v_product_id l, l)]"] Cons.prems(1) fresh
  show ?case by (simp add: update_fresh)
qed

lemma map_of_fold_update:
  "map_of (fold (\<lambda>p d. AList.update p (f p) d) ps d) q
     = (if q \<in> set ps then Some (f q) else map_of d q)"
  by (induction ps arbitrary: d) (auto simp: update_conv')

lemma distinct_fold_update:
  "distinct (map fst d) \<Longrightarrow> distinct (map fst (fold (\<lambda>p d. AList.update p (f p) d) ps d))"
  by (induction ps arbitrary: d) (auto simp: distinct_update)


lemma v_product_id_found_line [simp]: "v_product_id (found_line g) = g_product_id g"
  by (simp add: found_line_def)

lemma find_move_line_with_lookup:
  assumes arr: "\<forall>xs. set (arrange xs) = set xs
      \<and> (distinct (map g_product_id xs) \<longrightarrow> distinct (map g_product_id (arrange xs)))"
  shows "\<exists>d. find_move_line_with arrange e w src dst = Inr d \<and> distinct (map fst d) \<and>
    (\<forall>p. map_of d p =
       (if movements e w src dst p \<noteq> []
        then Some (found_line
               \<lparr>g_product_id = p,
                g_product_id_count = length (movements e w src dst p),
                g_qty_done = sum_list (map ml_qty_done (movements e w src dst p))\<rparr>)
        else if (show_all_partner_products w \<or> show_all_products w) \<and> p \<in> set (shown_products e w)
        then Some (product_only p)
        else None))"
proof -
  have set_arr: "set (arrange xs) = set xs" for xs
    using arr by simp
  have dist_arr: "distinct (map g_product_id xs) \<Longrightarrow> distinct (map g_product_id (arrange xs))" for xs
    using arr by simp
  let ?products = "get_products e w"
  let ?dom = "get_move_line_domain w ?products src dst"
  let ?G = "arrange (read_group e ?dom)"
  let ?d0 = "map (\<lambda>l. (v_product_id l, l)) (map found_line ?G)"
  let ?ps = "filter (\<lambda>p. p \<notin> fst ` set ?d0) (shown_products e w)"
  let ?d1 = "fold (\<lambda>product d. AList.update product (product_only product) d) ?ps ?d0"
  have sub: "g_product_id ` set ?G \<subseteq> set ?products"
    using read_group_subset [of e w ?products src dst] by (simp add: set_arr)
  have dicts: "found_line_dicts ?products ?G = Inr (map found_line ?G)"
    using sub by (rule found_line_dicts_Inr)
  have dG: "distinct (map g_product_id ?G)"
    by (rule dist_arr) (rule distinct_read_group)
  have keys0: "map fst ?d0 = map g_product_id ?G"
    by (simp add: comp_def)
  have dist0: "distinct (map fst ?d0)"
    using dG by (simp only: keys0)
  have fold0: "fold (\<lambda>line d. AList.update (v_product_id line) line d) (map found_line ?G) [] = ?d0"
    using dG by (subst fold_update_fresh) (simp_all add: comp_def)
  have distg: "distinct (map fst (map (\<lambda>g. (g_product_id g, found_line g)) (read_group e ?dom)))"
    using distinct_read_group [of e ?dom] by (simp add: comp_def)
  have sets: "set ?d0 = set (map (\<lambda>g. (g_product_id g, found_line g)) (read_group e ?dom))"
    by (simp add: set_arr image_image)
  have "map_of ?d0 = map_of (map (\<lambda>g. (g_product_id g, found_line g)) (read_group e ?dom))"
    using map_of_inject_set [OF dist0 distg] sets by blast
  then have look0: "map_of ?d0 p =
       (if movements e w src dst p \<noteq> []
        then Some (found_line
               \<lparr>g_product_id = p,
                g_product_id_count = length (movements e w src dst p),
                g_qty_done = sum_list (map ml_qty_done (movements e w src dst p))\<rparr>)
        else None)" for p
    by (simp only: map_of_read_group movements_def) simp
  have in0: "p \<in> fst ` set ?d0 \<longleftrightarrow> movements e w src dst p \<noteq> []" for p
    using look0 [of p] map_of_eq_None_iff [of ?d0 p] by (auto split: if_splits)
  have look1: "map_of ?d1 p =
       (if movements e w src dst p \<noteq> [] then map_of ?d0 p
        else if p \<in> set (shown_products e w) then Some (product_only p) else None)" for p
    using in0 [of p] look0 [of p] by (simp add: map_of_fold_update)
  have dist1: "distinct (map fst ?d1)"
    using dist0 by (rule distinct_fold_update)
  have res: "find_move_line_with arrange e w src dst =
      Inr (if show_all_partner_products w \<or> show_all_products w then ?d1 else ?d0)"
    unfolding find_move_line_with_def Let_def dicts sum.case fold0 shown_products_def by simp
  show ?thesis
  proof (cases "show_all_partner_products w \<or> show_all_products w")
    case True
    with res have "find_move_line_with arrange e w src dst = Inr ?d1" by simp
    moreover have "\<forall>p. map_of ?d1 p =
       (if movements e w src dst p \<noteq> []
        then Some (found_line
               \<lparr>g_product_id = p,
                g_product_id_count = length (movements e w src dst p),
                g_qty_done = sum_list (map ml_qty_done (movements e w src dst p))\<rparr>)
        else if (show_all_partner_products w \<or> show_all_products w) \<and> p \<in> set (shown_products e w)
        then Some (product_only p)
        else None)"
      using True look1 look0 by simp
    ultimately show ?thesis using dist1 by blast
  next
    case False
    with res have "find_move_line_with arrange e w src dst = Inr ?d0" by simp
    moreover have "\<forall>p. map_of ?d0 p =
       (if movements e w src dst p \<noteq> []
        then Some (found_line
               \<lparr>g_product_id = p,
                g_product_id_count = length (movements e w src dst p),
                g_qty_done = sum_list (map ml_qty_done (movements e w src dst p))\<rparr>)
        else if (show_all_partner_products w \<or> show_all_products w) \<and> p \<in> set (shown_products e w)
        then Some (product_only p)
        else None)"
      using False look0 by simp
    ultimately show ?thesis using dist0 by blast
  qed
qed

lemma manual_ordering_arr:
  "\<forall>xs. set (manual_ordering xs) = set xs
      \<and> (distinct (map g_product_id xs) \<longrightarrow> distinct (map g_product_id (manual_ordering xs)))"
  by (simp add: manual_ordering_def distinct_map)

lemma unsorted_arr:
  "\<forall>xs. set ((\<lambda>found_lines. found_lines) xs) = set xs
      \<and> (distinct (map g_product_id xs)
           \<longrightarrow> distinct (map g_product_id ((\<lambda>found_lines. found_lines) xs)))"
  by simp

section \<open>Merging and row creation\<close>

lemma map_of_set_received:
  "map_of (set_received d) p =
     map_option (\<lambda>line. line\<lparr>v_qty_received := Some (get_qty (v_qty_done line)),
                              v_times_received := Some (get_times (v_product_id_count line))\<rparr>)
       (map_of d p)"
  by (induction d) (auto simp: set_received_def)

lemma keys_set_received: "map fst (set_received d) = map fst d"
  by (induction d) (auto simp: set_received_def)

lemma map_of_merge_delivered:
  "map_of (merge_delivered (k, line) d) p =
     (if p = k
      then Some ((case map_of d k of None \<Rightarrow> line | Some cur \<Rightarrow> cur)
                   \<lparr>v_qty_delivered := Some (get_qty (v_qty_done line)),
                    v_times_delivered := Some (get_times (v_product_id_count line))\<rparr>)
      else map_of d p)"
  by (auto simp: merge_delivered_def Let_def map_of_map_entry update_conv' split: option.splits)

lemma distinct_merge_delivered:
  "distinct (map fst d) \<Longrightarrow> distinct (map fst (merge_delivered entry d))"
  by (simp add: merge_delivered_def Let_def distinct_map_entry distinct_update)

lemma keys_merge_delivered:
  "fst ` set (merge_delivered entry d) = insert (fst entry) (fst ` set d)"
  by (auto simp: merge_delivered_def Let_def dom_map_entry dom_update map_of_eq_None_iff)

lemma distinct_fold_merge:
  "distinct (map fst d) \<Longrightarrow> distinct (map fst (fold merge_delivered ds d))"
  by (induction ds arbitrary: d) (auto simp: distinct_merge_delivered)

lemma keys_fold_merge:
  "fst ` set (fold merge_delivered ds d) = fst ` set ds \<union> fst ` set d"
  by (induction ds arbitrary: d) (auto simp: keys_merge_delivered)

lemma map_of_fold_merge:
  "distinct (map fst ds) \<Longrightarrow>
   map_of (fold merge_delivered ds d) p =
     (case map_of ds p of
        None \<Rightarrow> map_of d p
      | Some line \<Rightarrow>
          Some ((case map_of d p of None \<Rightarrow> line | Some cur \<Rightarrow> cur)
                  \<lparr>v_qty_delivered := Some (get_qty (v_qty_done line)),
                   v_times_delivered := Some (get_times (v_product_id_count line))\<rparr>))"
proof (induction ds arbitrary: d)
  case Nil
  then show ?case by simp
next
  case (Cons entry ds)
  obtain k line where entry: "entry = (k, line)" by (cases entry)
  from Cons.prems entry have fresh: "map_of ds k = None" and dist: "distinct (map fst ds)"
    by (auto simp: map_of_eq_None_iff)
  show ?case
    using fresh by (auto simp: entry Cons.IH [OF dist] map_of_merge_delivered split: option.splits)
qed

lemma prepare_wizard_line_cases:
  "prepare_wizard_line e w v =
     (case get_total_days w of
        Inl err \<Rightarrow> Inl err
      | Inr d \<Rightarrow> if d = 0 then Inl ZeroDivisionError
                 else Inr (projr (prepare_wizard_line e w v)))"
  by (auto simp: prepare_wizard_line_def Let_def truediv_def split: sum.splits)

lemma prepare_wizard_line_fields:
  assumes "prepare_wizard_line e w v = Inr r"
  shows "line_product_id r = v_product_id v"
    and "times_received r = get_times (v_times_received v)"
    and "units_received r = get_qty (v_qty_received v)"
    and "times_delivered r = get_times (v_times_delivered v)"
    and "units_delivered r = get_qty (v_qty_delivered v)"
  using assms by (auto simp: prepare_wizard_line_def Let_def split: sum.splits)

lemma create_lines_cases:
  "create_lines e w M t =
     (if M = [] then Inr t
      else case get_total_days w of
             Inl err \<Rightarrow> Inl err
           | Inr d \<Rightarrow> if d = 0 then Inl ZeroDivisionError
                      else Inr (t @ map (\<lambda>entry. projr (prepare_wizard_line e w (snd entry))) M))"
proof (induction M arbitrary: t)
  case Nil
  then show ?case by simp
next
  case (Cons entry M)
  show ?case
    by (subst create_lines.simps, subst prepare_wizard_line_cases)
       (simp add: Cons.IH split: sum.splits)
qed

lemma create_lines_Inr:
  assumes "create_lines e w M t = Inr rows"
  shows "\<exists>new. rows = t @ new \<and> list_all2 (\<lambda>entry r. prepare_wizard_line e w (snd entry) = Inr r) M new"
  using assms
proof (induction M arbitrary: t)
  case Nil
  then show ?case by simp
next
  case (Cons entry M)
  from Cons.prems obtain r where r: "prepare_wizard_line e w (snd entry) = Inr r"
    and rest: "create_lines e w M (t @ [r]) = Inr rows"
    by (auto split: sum.splits)
  from Cons.IH [OF rest] obtain new where "rows = (t @ [r]) @ new"
    and "list_all2 (\<lambda>entry r. prepare_wizard_line e w (snd entry) = Inr r) M new"
    by blast
  with r have "rows = t @ (r # new) \<and>
      list_all2 (\<lambda>entry r. prepare_wizard_line e w (snd entry) = Inr r) (entry # M) (r # new)"
    by simp
  then show ?case by blast
qed

lemma merge_frame:
  "map_of d p = Some cur \<Longrightarrow>
   \<exists>a b. map_of (fold merge_delivered ds d) p = Some (cur\<lparr>v_qty_delivered := a, v_times_delivered := b\<rparr>)"
proof (induction ds arbitrary: d cur)
  case Nil
  have "cur = cur\<lparr>v_qty_delivered := v_qty_delivered cur, v_times_delivered := v_times_delivered cur\<rparr>"
    by simp
  with Nil show ?case by (metis fold_simps(1))
next
  case (Cons entry ds)
  obtain k line where entry: "entry = (k, line)" by (cases entry)
  show ?case
  proof (cases "p = k")
    case True
    with Cons.prems have "map_of (merge_delivered entry d) p =
        Some (cur\<lparr>v_qty_delivered := Some (get_qty (v_qty_done line)),
                  v_times_delivered := Some (get_times (v_product_id_count line))\<rparr>)"
      by (simp add: entry map_of_merge_delivered)
    from Cons.IH [OF this] show ?thesis by simp
  next
    case False
    with Cons.prems have "map_of (merge_delivered entry d) p = Some cur"
      by (simp add: entry map_of_merge_delivered)
    from Cons.IH [OF this] show ?thesis by simp
  qed
qed

lemma find_move_line_with_entry:
  assumes arr: "\<forall>xs. set (arrange xs) = set xs
      \<and> (distinct (map g_product_id xs) \<longrightarrow> distinct (map g_product_id (arrange xs)))"
    and res: "find_move_line_with arrange e w src dst = Inr d"
    and mem: "map_of d k = Some l"
  shows "v_product_id l = k \<and> v_qty_received l = None \<and> v_times_received l = None
         \<and> v_qty_delivered l = None \<and> v_times_delivered l = None"
proof -
  from find_move_line_with_lookup [where arrange = arrange and e = e and w = w and src = src and dst = dst, OF arr] res
  have "map_of d k =
       (if movements e w src dst k \<noteq> []
        then Some (found_line
               \<lparr>g_product_id = k,
                g_product_id_count = length (movements e w src dst k),
                g_qty_done = sum_list (map ml_qty_done (movements e w src dst k))\<rparr>)
        else if (show_all_partner_products w \<or> show_all_products w) \<and> k \<in> set (shown_products e w)
        then Some (product_only k)
        else None)"
    by auto
  with mem show ?thesis
    by (auto simp: found_line_def product_only_def split: if_splits)
qed

lemma action_show_results_with_eq:
  assumes arr: "\<forall>xs. set (arrange xs) = set xs
      \<and> (distinct (map g_product_id xs) \<longrightarrow> distinct (map g_product_id (arrange xs)))"
  shows "\<exists>R D. find_move_line_with arrange e w ''supplier'' ''internal'' = Inr R
      \<and> find_move_line_with arrange e w ''internal'' ''customer'' = Inr D
      \<and> action_show_results_with arrange e w table
          = create_lines e w (fold merge_delivered D (set_received R)) []"
proof -
  from find_move_line_with_lookup [where arrange = arrange and e = e and w = w and src = "''supplier''" and dst = "''internal''", OF arr]
  obtain R where R: "find_move_line_with arrange e w ''supplier'' ''internal'' = Inr R" by blast
  from find_move_line_with_lookup [where arrange = arrange and e = e and w = w and src = "''internal''" and dst = "''customer''", OF arr]
  obtain D where D: "find_move_line_with arrange e w ''internal'' ''customer'' = Inr D" by blast
  have "action_show_results_with arrange e w table
          = create_lines e w (fold merge_delivered D (set_received R)) []"
    unfolding action_show_results_with_def Let_def R D unlink_search_all by simp
  with R D show ?thesis by blast
qed

lemma list_all2_Inr_map:
  "list_all2 (\<lambda>x y. g x = Inr y) xs ys \<Longrightarrow> ys = map (\<lambda>x. projr (g x)) xs"
  by (induction rule: list_all2_induct) simp_all

lemma create_lines_rows:
  assumes "create_lines e w M [] = Inr rows"
  shows "rows = map (\<lambda>entry. projr (prepare_wizard_line e w (snd entry))) M"
    and "\<And>entry. entry \<in> set M \<Longrightarrow> prepare_wizard_line e w (snd entry)
           = Inr (projr (prepare_wizard_line e w (snd entry)))"
proof -
  from create_lines_Inr [OF assms]
  have all2: "list_all2 (\<lambda>entry r. prepare_wizard_line e w (snd entry) = Inr r) M rows"
    by simp
  then show "rows = map (\<lambda>entry. projr (prepare_wizard_line e w (snd entry))) M"
    by (rule list_all2_Inr_map)
  fix entry assume "entry \<in> set M"
  with all2 obtain r where "prepare_wizard_line e w (snd entry) = Inr r"
    by (auto simp: list_all2_conv_all_nth in_set_conv_nth)
  then show "prepare_wizard_line e w (snd entry) = Inr (projr (prepare_wizard_line e w (snd entry)))"
    by simp
qed

lemma filter_distinct_key:
  "distinct (map f xs) \<Longrightarrow> x \<in> set xs \<Longrightarrow> filter (\<lambda>y. f y = f x) xs = [x]"
proof (induction xs)
  case Nil
  then show ?case by simp
next
  case (Cons a xs)
  show ?case
  proof (cases "a = x")
    case True
    with Cons.prems have "filter (\<lambda>y. f y = f x) xs = []"
      by (auto simp: filter_empty_conv image_iff)
    with True show ?thesis by simp
  next
    case False
    with Cons.prems have "x \<in> set xs" "f a \<noteq> f x" by auto
    with Cons show ?thesis by simp
  qed
qed

lemma merged_dict:
  assumes arr: "\<forall>xs. set (arrange xs) = set xs
      \<and> (distinct (map g_product_id xs) \<longrightarrow> distinct (map g_product_id (arrange xs)))"
    and R: "find_move_line_with arrange e w ''supplier'' ''internal'' = Inr R"
    and D: "find_move_line_with arrange e w ''internal'' ''customer'' = Inr D"
  shows "distinct (map fst (fold merge_delivered D (set_received R)))"
    and "fst ` set (fold merge_delivered D (set_received R)) = fst ` set R \<union> fst ` set D"
    and "(k, v) \<in> set (fold merge_delivered D (set_received R)) \<Longrightarrow>
           v_product_id v = k
           \<and> get_times (v_times_received v) = (case map_of R k of None \<Rightarrow> 0 | Some l \<Rightarrow> get_times (v_product_id_count l))
           \<and> get_qty (v_qty_received v) = (case map_of R k of None \<Rightarrow> 0 | Some l \<Rightarrow> get_qty (v_qty_done l))
           \<and> get_times (v_times_delivered v) = (case map_of D k of None \<Rightarrow> 0 | Some l \<Rightarrow> get_times (v_product_id_count l))
           \<and> get_qty (v_qty_delivered v) = (case map_of D k of None \<Rightarrow> 0 | Some l \<Rightarrow> get_qty (v_qty_done l))"
proof -
  let ?M = "fold merge_delivered D (set_received R)"
  from find_move_line_with_lookup [where arrange = arrange and e = e and w = w and src = "''supplier''" and dst = "''internal''", OF arr] R
  have dR: "distinct (map fst R)" by auto
  from find_move_line_with_lookup [where arrange = arrange and e = e and w = w and src = "''internal''" and dst = "''customer''", OF arr] D
  have dD: "distinct (map fst D)" by auto
  show dM: "distinct (map fst ?M)"
    using dR by (intro distinct_fold_merge) (simp add: keys_set_received)
  have "fst ` set (set_received R) = fst ` set R"
    using keys_set_received [of R] by (metis set_map)
  then show "fst ` set ?M = fst ` set R \<union> fst ` set D"
    by (auto simp: keys_fold_merge)
  assume "(k, v) \<in> set ?M"
  with dM have look: "map_of ?M k = Some v" by simp
  note eR = find_move_line_with_entry [where arrange = arrange, OF arr R]
  note eD = find_move_line_with_entry [where arrange = arrange, OF arr D]
  show "v_product_id v = k
           \<and> get_times (v_times_received v) = (case map_of R k of None \<Rightarrow> 0 | Some l \<Rightarrow> get_times (v_product_id_count l))
           \<and> get_qty (v_qty_received v) = (case map_of R k of None \<Rightarrow> 0 | Some l \<Rightarrow> get_qty (v_qty_done l))
           \<and> get_times (v_times_delivered v) = (case map_of D k of None \<Rightarrow> 0 | Some l \<Rightarrow> get_times (v_product_id_count l))
           \<and> get_qty (v_qty_delivered v) = (case map_of D k of None \<Rightarrow> 0 | Some l \<Rightarrow> get_qty (v_qty_done l))"
  proof (cases "map_of D k")
    case None
    with look obtain cur where cur: "map_of R k = Some cur"
      and v: "v = cur\<lparr>v_qty_received := Some (get_qty (v_qty_done cur)),
                     v_times_received := Some (get_times (v_product_id_count cur))\<rparr>"
      by (auto simp: map_of_fold_merge [OF dD] map_of_set_received)
    from eR [OF cur] show ?thesis
      by (simp add: v cur None get_qty_def get_times_def)
  next
    case (Some line)
    note line = eD [OF Some]
    show ?thesis
    proof (cases "map_of R k")
      case None
      with look Some have v: "v = line\<lparr>v_qty_delivered := Some (get_qty (v_qty_done line)),
                     v_times_delivered := Some (get_times (v_product_id_count line))\<rparr>"
        by (auto simp: map_of_fold_merge [OF dD] map_of_set_received)
      from line show ?thesis
        by (simp add: v Some None get_qty_def get_times_def)
    next
      case (Some cur)
      with look \<open>map_of D k = Some line\<close>
      have v: "v = cur\<lparr>v_qty_received := Some (get_qty (v_qty_done cur)),
                     v_times_received := Some (get_times (v_product_id_count cur)),
                     v_qty_delivered := Some (get_qty (v_qty_done line)),
                     v_times_delivered := Some (get_times (v_product_id_count line))\<rparr>"
        by (auto simp: map_of_fold_merge [OF dD] map_of_set_received)
      from eR [OF Some] show ?thesis
        by (simp add: v Some \<open>map_of D k = Some line\<close> get_qty_def get_times_def)
    qed
  qed
qed

lemma find_move_line_keys:
  assumes arr: "\<forall>xs. set (arrange xs) = set xs
      \<and> (distinct (map g_product_id xs) \<longrightarrow> distinct (map g_product_id (arrange xs)))"
    and res: "find_move_line_with arrange e w src dst = Inr d"
  shows "p \<in> fst ` set d \<longleftrightarrow>
     movements e w src dst p \<noteq> []
     \<or> (show_all_partner_products w \<or> show_all_products w) \<and> p \<in> set (shown_products e w)"
proof -
  from find_move_line_with_lookup [where arrange = arrange and e = e and w = w and src = src and dst = dst, OF arr] res
  have "map_of d p =
       (if movements e w src dst p \<noteq> []
        then Some (found_line
               \<lparr>g_product_id = p,
                g_product_id_count = length (movements e w src dst p),
                g_qty_done = sum_list (map ml_qty_done (movements e w src dst p))\<rparr>)
        else if (show_all_partner_products w \<or> show_all_products w) \<and> p \<in> set (shown_products e w)
        then Some (product_only p)
        else None)"
    by auto
  then show ?thesis
    using map_of_eq_None_iff [of d p] by (auto split: if_splits)
qed

lemma action_rows:
  assumes arr: "\<forall>xs. set (arrange xs) = set xs
      \<and> (distinct (map g_product_id xs) \<longrightarrow> distinct (map g_product_id (arrange xs)))"
    and R: "find_move_line_with arrange e w ''supplier'' ''internal'' = Inr R"
    and D: "find_move_line_with arrange e w ''internal'' ''customer'' = Inr D"
    and rows: "action_show_results_with arrange e w table = Inr rows"
  shows "rows = map (\<lambda>entry. projr (prepare_wizard_line e w (snd entry)))
                  (fold merge_delivered D (set_received R))"
    and "map line_product_id rows = map fst (fold merge_delivered D (set_received R))"
    and "distinct (map line_product_id rows)"
    and "line_product_id ` set rows = fst ` set R \<union> fst ` set D"
    and "r \<in> set rows \<Longrightarrow>
           times_received r = (case map_of R (line_product_id r) of None \<Rightarrow> 0 | Some l \<Rightarrow> get_times (v_product_id_count l))
         \<and> units_received r = (case map_of R (line_product_id r) of None \<Rightarrow> 0 | Some l \<Rightarrow> get_qty (v_qty_done l))
         \<and> times_delivered r = (case map_of D (line_product_id r) of None \<Rightarrow> 0 | Some l \<Rightarrow> get_times (v_product_id_count l))
         \<and> units_delivered r = (case map_of D (line_product_id r) of None \<Rightarrow> 0 | Some l \<Rightarrow> get_qty (v_qty_done l))"
proof -
  let ?M = "fold merge_delivered D (set_received R)"
  note M = merged_dict [where arrange = arrange, OF arr R D]
  from action_show_results_with_eq [where arrange = arrange and e = e and w = w and table = table, OF arr] R D rows
  have cl: "create_lines e w ?M [] = Inr rows" by simp
  note cr = create_lines_rows [OF cl]
  show rows_eq: "rows = map (\<lambda>entry. projr (prepare_wizard_line e w (snd entry))) ?M"
    by (rule cr(1))
  have entry: "line_product_id (projr (prepare_wizard_line e w (snd entry))) = fst entry"
    if "entry \<in> set ?M" for entry
  proof -
    from that have "(fst entry, snd entry) \<in> set ?M" by simp
    from M(3) [OF this] have "v_product_id (snd entry) = fst entry" by simp
    with prepare_wizard_line_fields(1) [OF cr(2) [OF that]] show ?thesis by simp
  qed
  show keys: "map line_product_id rows = map fst ?M"
    by (simp add: rows_eq entry)
  show "distinct (map line_product_id rows)"
    using M(1) by (simp only: keys)
  have "line_product_id ` set rows = set (map line_product_id rows)" by simp
  also have "\<dots> = fst ` set ?M" by (simp only: keys set_map)
  finally show "line_product_id ` set rows = fst ` set R \<union> fst ` set D"
    by (simp only: M(2))
  assume "r \<in> set rows"
  then obtain entry where mem: "entry \<in> set ?M"
    and r: "r = projr (prepare_wizard_line e w (snd entry))"
    by (auto simp: rows_eq)
  from cr(2) [OF mem] r have prep: "prepare_wizard_line e w (snd entry) = Inr r" by simp
  from mem have "(fst entry, snd entry) \<in> set ?M" by simp
  note v = M(3) [OF this]
  have k: "line_product_id r = fst entry"
    using entry [OF mem] r by simp
  show "times_received r = (case map_of R (line_product_id r) of None \<Rightarrow> 0 | Some l \<Rightarrow> get_times (v_product_id_count l))
         \<and> units_received r = (case map_of R (line_product_id r) of None \<Rightarrow> 0 | Some l \<Rightarrow> get_qty (v_qty_done l))
         \<and> times_delivered r = (case map_of D (line_product_id r) of None \<Rightarrow> 0 | Some l \<Rightarrow> get_times (v_product_id_count l))
         \<and> units_delivered r = (case map_of D (line_product_id r) of None \<Rightarrow> 0 | Some l \<Rightarrow> get_qty (v_qty_done l))"
    using v prepare_wizard_line_fields [OF prep] by (simp add: k)
qed

section \<open>The candidate products and the domain\<close>

lemma set_union_ids [simp]: "set (union_ids xs) = set xs"
  by (simp add: union_ids_def)

lemma set_option_ids [simp]: "set (option_ids xs) = {x. Some x \<in> set xs}"
  by (induction xs rule: option_ids.induct) auto

lemma get_products_iff:
  "p \<in> set (get_products e w) \<longleftrightarrow>
     (\<exists>v. partner_id w = Some v
        \<and> (\<exists>si \<in> set (supplierinfo_table e).
              si_name si = commercial_partner_id e v
              \<and> (si_product_id si = Some p \<and> active e p \<and> purchase_ok e p
                 \<or> (\<exists>t. si_product_tmpl_id si = Some t \<and> tmpl_active e t \<and> tmpl_purchase_ok e t
                        \<and> p \<in> set (product_variant_ids e t)))))
     \<and> (product_category_ids w = [] \<or> categ_id e p \<in> set (product_category_ids w))"
proof (cases "partner_id w")
  case None
  then show ?thesis
    by (simp add: get_products_def get_supplier_products_def Let_def)
next
  case (Some v)
  have "p \<in> set (get_supplier_products e w) \<longleftrightarrow>
      (\<exists>si \<in> set (supplierinfo_table e).
              si_name si = commercial_partner_id e v
              \<and> (si_product_id si = Some p \<and> active e p \<and> purchase_ok e p
                 \<or> (\<exists>t. si_product_tmpl_id si = Some t \<and> tmpl_active e t \<and> tmpl_purchase_ok e t
                        \<and> p \<in> set (product_variant_ids e t))))"
    unfolding get_supplier_products_def Let_def Some
    by (simp add: image_iff) (rule iffI; metis)
  with Some show ?thesis
    by (auto simp: get_products_def Let_def)
qed

lemma domain_holds_iff:
  "domain_holds (get_move_line_domain w products src dst) ml \<longleftrightarrow>
     ml_product_id ml \<in> set products
     \<and> combine (date_begin w) time_min \<le> ml_date ml
     \<and> ml_date ml \<le> combine (date_end w) time_max
     \<and> ml_location_usage ml = src
     \<and> ml_location_dest_usage ml = dst
     \<and> ml_state ml = ''done''
     \<and> (warehouse_ids w = [] \<or> (\<exists>wh \<in> set (warehouse_ids w). ml_warehouse_id ml = Some wh))"
  by (auto simp: domain_holds_def get_move_line_domain_def split: option.splits)

lemma shown_products_iff:
  "p \<in> set (shown_products e w) \<longleftrightarrow>
     p \<in> set (get_products e w)
     \<or> show_all_products w \<and> p \<in> set (product_table e) \<and> active e p \<and> purchase_ok e p
        \<and> (product_category_ids w = [] \<or> categ_id e p \<in> set (product_category_ids w))"
  by (auto simp: shown_products_def search_products_def get_all_products_domain_def)

section \<open>Further lemmas and the sample requests, evaluated\<close>

lemma example_received_eq:
  "find_move_line example_env example_wizard ''supplier'' ''internal'' = Inr example_received"
  by code_simp

lemma example_delivered_eq:
  "find_move_line example_env example_wizard ''internal'' ''customer'' = Inr example_delivered"
  by code_simp

lemma example_rows_eq: "action_show_results example_env example_wizard [] = Inr example_rows"
  by code_simp

lemma get_total_days_eq:
  "get_total_days w =
     (if date_max \<le> date_end w then Inl OverflowError
      else Inr (date_end w - date_begin w + 1))"
  by (simp add: get_total_days_def add_days_def)

lemma action_show_results_create:
  "\<exists>R D. find_move_line e w ''supplier'' ''internal'' = Inr R
      \<and> find_move_line e w ''internal'' ''customer'' = Inr D
      \<and> action_show_results e w table
          = create_lines e w (fold merge_delivered D (set_received R)) []"
  unfolding find_move_line_def action_show_results_def
  by (rule action_show_results_with_eq [OF manual_ordering_arr])

lemma prepare_wizard_line_avg:
  assumes "get_total_days w = Inr d" and "d \<noteq> 0"
  shows "\<exists>r. prepare_wizard_line e w v = Inr r
     \<and> units_avg_delivered r = get_qty (v_qty_delivered v) / of_int d
     \<and> units_delivered r = get_qty (v_qty_delivered v)
     \<and> price_unit r = (case select_seller e (v_product_id v) (partner_id w) (today e) 1 of
                         None \<Rightarrow> 0 | Some si \<Rightarrow> si_price si)
     \<and> line_currency_id r = (case select_seller e (v_product_id v) (partner_id w) (today e) 1 of
                         None \<Rightarrow> None | Some si \<Rightarrow> si_currency_id si)
     \<and> line_partner_id r = map_option si_name (select_seller e (v_product_id v) (partner_id w) (today e) 1)"
  using assms by (simp add: prepare_wizard_line_def Let_def truediv_def)

lemma movements_eq:
  "movements e w src dst p =
     filter (\<lambda>ml. ml_product_id ml = p
                 \<and> ml_product_id ml \<in> set (get_products e w)
                 \<and> ml_state ml = ''done''
                 \<and> combine (date_begin w) time_min \<le> ml_date ml
                 \<and> ml_date ml \<le> combine (date_end w) time_max
                 \<and> ml_location_usage ml = src
                 \<and> ml_location_dest_usage ml = dst
                 \<and> (warehouse_ids w = []
                    \<or> (\<exists>wh \<in> set (warehouse_ids w). ml_warehouse_id ml = Some wh)))
       (move_line_table e)"
  unfolding movements_def
  by (rule filter_cong) (auto simp: domain_holds_iff)

lemma prepare_wizard_line_avg_zero:
  "prepare_wizard_line e w v = Inr r \<Longrightarrow> units_delivered r = 0 \<Longrightarrow> units_avg_delivered r = 0"
  by (auto simp: prepare_wizard_line_def Let_def truediv_def split: sum.splits if_splits)

lemma create_lines_row:
  assumes "create_lines e w M [] = Inr rows" and "r \<in> set rows"
  shows "\<exists>entry \<in> set M. prepare_wizard_line e w (snd entry) = Inr r"
proof -
  note cr = create_lines_rows [OF assms(1)]
  from assms(2) have "r \<in> set (map (\<lambda>entry. projr (prepare_wizard_line e w (snd entry))) M)"
    by (simp only: cr(1) [symmetric])
  then obtain entry where mem: "entry \<in> set M"
    and r: "r = projr (prepare_wizard_line e w (snd entry))"
    by auto
  from cr(2) [OF mem] r have "prepare_wizard_line e w (snd entry) = Inr r" by simp
  with mem show ?thesis by blast
qed

lemma find_move_line_no_movement:
  assumes arr: "\<forall>xs. set (arrange xs) = set xs
      \<and> (distinct (map g_product_id xs) \<longrightarrow> distinct (map g_product_id (arrange xs)))"
    and res: "find_move_line_with arrange e w src dst = Inr d"
    and none: "movements e w src dst p = []"
  shows "(case map_of d p of None \<Rightarrow> 0 | Some l \<Rightarrow> get_times (v_product_id_count l)) = 0"
    and "(case map_of d p of None \<Rightarrow> 0 | Some l \<Rightarrow> get_qty (v_qty_done l)) = 0"
proof -
  from find_move_line_with_lookup [where arrange = arrange and e = e and w = w and src = src and dst = dst, OF arr] res
  have "map_of d p =
       (if movements e w src dst p \<noteq> []
        then Some (found_line
               \<lparr>g_product_id = p,
                g_product_id_count = length (movements e w src dst p),
                g_qty_done = sum_list (map ml_qty_done (movements e w src dst p))\<rparr>)
        else if (show_all_partner_products w \<or> show_all_products w) \<and> p \<in> set (shown_products e w)
        then Some (product_only p)
        else None)"
    by auto
  with none have "map_of d p = None \<or> map_of d p = Some (product_only p)"
    by (simp split: if_splits)
  then show "(case map_of d p of None \<Rightarrow> 0 | Some l \<Rightarrow> get_times (v_product_id_count l)) = 0"
    and "(case map_of d p of None \<Rightarrow> 0 | Some l \<Rightarrow> get_qty (v_qty_done l)) = 0"
    by (auto simp: product_only_def get_times_def get_qty_def)
qed

lemma sort_key_unique:
  assumes sets: "set xs = set ys"
    and dx: "distinct (map k xs)" and dy: "distinct (map k ys)"
  shows "sort_key k xs = sort_key k ys"
proof -
  from dx have inj: "inj_on k (set xs)" by (simp add: distinct_map)
  have "map k (sort_key k xs) = map k (sort_key k ys)"
  proof (rule sorted_distinct_set_unique)
    show "sorted (map k (sort_key k xs))" "sorted (map k (sort_key k ys))"
      by (rule sorted_sort_key)+
    show "distinct (map k (sort_key k xs))"
      using dx by (simp add: distinct_map)
    show "distinct (map k (sort_key k ys))"
      using dy by (simp add: distinct_map)
    show "set (map k (sort_key k xs)) = set (map k (sort_key k ys))"
      using sets by simp
  qed
  moreover have "inj_on k (set (sort_key k xs) \<union> set (sort_key k ys))"
    using inj sets by simp
  ultimately show ?thesis by (rule map_inj_on)
qed

lemma manual_ordering_descending:
  "sorted (rev (map (\<lambda>res. (g_product_id_count res, g_qty_done res)) (manual_ordering found_lines)))"
  by (simp add: manual_ordering_def rev_map sorted_sort_key)

lemma action_show_results_with_equiv:
  assumes arr1: "\<forall>xs. set (arrange1 xs) = set xs
      \<and> (distinct (map g_product_id xs) \<longrightarrow> distinct (map g_product_id (arrange1 xs)))"
    and arr2: "\<forall>xs. set (arrange2 xs) = set xs
      \<and> (distinct (map g_product_id xs) \<longrightarrow> distinct (map g_product_id (arrange2 xs)))"
  shows "map_sum id set (action_show_results_with arrange1 e w table)
           = map_sum id set (action_show_results_with arrange2 e w table)"
    and "inj product_order \<Longrightarrow>
         map_sum id (search_lines product_order) (action_show_results_with arrange1 e w table)
           = map_sum id (search_lines product_order) (action_show_results_with arrange2 e w table)"
proof -
  from action_show_results_with_eq [where arrange = arrange1 and e = e and w = w and table = table, OF arr1]
  obtain R1 D1 where R1: "find_move_line_with arrange1 e w ''supplier'' ''internal'' = Inr R1"
    and D1: "find_move_line_with arrange1 e w ''internal'' ''customer'' = Inr D1"
    and act1: "action_show_results_with arrange1 e w table
          = create_lines e w (fold merge_delivered D1 (set_received R1)) []"
    by blast
  from action_show_results_with_eq [where arrange = arrange2 and e = e and w = w and table = table, OF arr2]
  obtain R2 D2 where R2: "find_move_line_with arrange2 e w ''supplier'' ''internal'' = Inr R2"
    and D2: "find_move_line_with arrange2 e w ''internal'' ''customer'' = Inr D2"
    and act2: "action_show_results_with arrange2 e w table
          = create_lines e w (fold merge_delivered D2 (set_received R2)) []"
    by blast
  let ?M1 = "fold merge_delivered D1 (set_received R1)"
  let ?M2 = "fold merge_delivered D2 (set_received R2)"
  let ?f = "\<lambda>entry. projr (prepare_wizard_line e w (snd entry))"
  note L1 = find_move_line_with_lookup [where arrange = arrange1 and e = e and w = w, OF arr1]
  note L2 = find_move_line_with_lookup [where arrange = arrange2 and e = e and w = w, OF arr2]
  from L1 [of "''supplier''" "''internal''"] L2 [of "''supplier''" "''internal''"] R1 R2
  have mR: "map_of R1 = map_of R2" by (intro ext) auto
  from L1 [of "''internal''" "''customer''"] L2 [of "''internal''" "''customer''"] D1 D2
  have mD: "map_of D1 = map_of D2" by (intro ext) auto
  from L1 [of "''internal''" "''customer''"] D1 have dD1: "distinct (map fst D1)" by auto
  from L2 [of "''internal''" "''customer''"] D2 have dD2: "distinct (map fst D2)" by auto
  have mS: "map_of (set_received R1) = map_of (set_received R2)"
    by (intro ext) (simp add: map_of_set_received mR)
  have "map_of ?M1 = map_of ?M2"
    by (intro ext) (simp only: map_of_fold_merge [OF dD1] map_of_fold_merge [OF dD2] mS mD)
  moreover note merged_dict(1) [where arrange = arrange1, OF arr1 R1 D1]
    merged_dict(1) [where arrange = arrange2, OF arr2 R2 D2]
  ultimately have sets: "set ?M1 = set ?M2"
    by (simp add: map_of_inject_set)
  then have empty: "?M1 = [] \<longleftrightarrow> ?M2 = []"
    by (metis set_empty)
  have res1: "action_show_results_with arrange1 e w table =
     (if ?M1 = [] then Inr []
      else case get_total_days w of
             Inl err \<Rightarrow> Inl err
           | Inr d \<Rightarrow> if d = 0 then Inl ZeroDivisionError else Inr (map ?f ?M1))"
    by (simp only: act1 create_lines_cases append_Nil)
  have res2: "action_show_results_with arrange2 e w table =
     (if ?M2 = [] then Inr []
      else case get_total_days w of
             Inl err \<Rightarrow> Inl err
           | Inr d \<Rightarrow> if d = 0 then Inl ZeroDivisionError else Inr (map ?f ?M2))"
    by (simp only: act2 create_lines_cases append_Nil)
  have img: "set (map ?f ?M1) = set (map ?f ?M2)"
    using sets by simp
  show "map_sum id set (action_show_results_with arrange1 e w table)
           = map_sum id set (action_show_results_with arrange2 e w table)"
    using empty img by (simp only: res1 res2) (simp split: sum.splits)
  assume inj: "inj product_order"
  have dist_order: "distinct (map (\<lambda>r. product_order (line_product_id r)) rs)"
    if "distinct (map line_product_id rs)" for rs :: "planning_line list"
  proof -
    have "map (\<lambda>r. product_order (line_product_id r)) rs = map product_order (map line_product_id rs)"
      by simp
    moreover have "distinct (map product_order (map line_product_id rs))"
      using that inj by (simp only: distinct_map) (auto intro: inj_on_subset)
    ultimately show ?thesis by (simp add: comp_def)
  qed
  have sorted_eq: "search_lines product_order (map ?f ?M1) = search_lines product_order (map ?f ?M2)"
    if ok1: "action_show_results_with arrange1 e w table = Inr (map ?f ?M1)"
      and ok2: "action_show_results_with arrange2 e w table = Inr (map ?f ?M2)"
    unfolding search_lines_def
    using img dist_order [OF action_rows(3) [where arrange = arrange1, OF arr1 R1 D1 ok1]]
      dist_order [OF action_rows(3) [where arrange = arrange2, OF arr2 R2 D2 ok2]]
    by (rule sort_key_unique)
  show "map_sum id (search_lines product_order) (action_show_results_with arrange1 e w table)
           = map_sum id (search_lines product_order) (action_show_results_with arrange2 e w table)"
  proof (cases "?M1 = []")
    case True
    with empty show ?thesis by (simp only: res1 res2) simp
  next
    case False
    with empty have ne2: "?M2 \<noteq> []" by simp
    show ?thesis
    proof (cases "get_total_days w")
      case (Inl err)
      with False ne2 show ?thesis by (simp only: res1 res2) simp
    next
      case (Inr d)
      show ?thesis
      proof (cases "d = 0")
        case True
        with Inr False ne2 show ?thesis by (simp only: res1 res2) simp
      next
        case nz: False
        from Inr nz False have ok1: "action_show_results_with arrange1 e w table = Inr (map ?f ?M1)"
          by (simp only: res1) simp
        from Inr nz ne2 have ok2: "action_show_results_with arrange2 e w table = Inr (map ?f ?M2)"
          by (simp only: res2) simp
        from sorted_eq [OF ok1 ok2] show ?thesis
          by (simp only: ok1 ok2) simp
      qed
    qed
  qed
qed

lemma action_show_results_completes:
  assumes "get_total_days w = Inr d" and "d \<noteq> 0"
  shows "\<exists>rows. action_show_results e w table = Inr rows"
proof -
  from action_show_results_create [of e w table] obtain R D
    where "action_show_results e w table
          = create_lines e w (fold merge_delivered D (set_received R)) []"
    by blast
  with assms show ?thesis
    by (simp add: create_lines_cases)
qed

lemma example_days: "get_total_days example_wizard = Inr 3"
  by (simp add: get_total_days_eq example_wizard_def date_max_def)

lemma update_append_fresh:
  "k \<notin> fst ` set xs \<Longrightarrow> AList.update k v (xs @ ys) = xs @ AList.update k v ys"
  by (induction xs) auto

lemma list_all_update:
  "list_all (\<lambda>entry. snd entry = f (fst entry)) acc \<Longrightarrow>
   list_all (\<lambda>entry. snd entry = f (fst entry)) (AList.update k (f k) acc)"
  by (induction acc) auto

lemma fold_update_append:
  assumes "set ps \<inter> fst ` set d0 = {}"
    and "list_all (\<lambda>entry. snd entry = f (fst entry)) acc"
  shows "\<exists>rest. fold (\<lambda>p d. AList.update p (f p) d) ps (d0 @ acc) = d0 @ rest
     \<and> list_all (\<lambda>entry. snd entry = f (fst entry)) rest"
  using assms
proof (induction ps arbitrary: acc)
  case Nil
  then show ?case by simp
next
  case (Cons a ps)
  from Cons.prems(1) have fresh: "a \<notin> fst ` set d0" and rest: "set ps \<inter> fst ` set d0 = {}"
    by auto
  from Cons.IH [OF rest list_all_update [OF Cons.prems(2), of a]] fresh
  show ?case by (simp add: update_append_fresh)
qed

lemma find_move_line_with_shape:
  assumes arr: "\<forall>xs. set (arrange xs) = set xs
      \<and> (distinct (map g_product_id xs) \<longrightarrow> distinct (map g_product_id (arrange xs)))"
  shows "\<exists>rest. find_move_line_with arrange e w src dst
        = Inr (map (\<lambda>x. (g_product_id x, found_line x))
                 (arrange (read_group e (get_move_line_domain w (get_products e w) src dst)))
               @ rest)
     \<and> list_all (\<lambda>entry. snd entry = product_only (fst entry)) rest"
proof -
  have set_arr: "set (arrange xs) = set xs" for xs
    using arr by simp
  have dist_arr: "distinct (map g_product_id xs) \<Longrightarrow> distinct (map g_product_id (arrange xs))" for xs
    using arr by simp
  let ?products = "get_products e w"
  let ?dom = "get_move_line_domain w ?products src dst"
  let ?G = "arrange (read_group e ?dom)"
  let ?d0 = "map (\<lambda>x. (g_product_id x, found_line x)) ?G"
  let ?ps = "filter (\<lambda>p. p \<notin> fst ` set ?d0) (shown_products e w)"
  let ?d1 = "fold (\<lambda>product d. AList.update product (product_only product) d) ?ps ?d0"
  have sub: "g_product_id ` set ?G \<subseteq> set ?products"
    using read_group_subset [of e w ?products src dst] by (simp add: set_arr)
  have dicts: "found_line_dicts ?products ?G = Inr (map found_line ?G)"
    using sub by (rule found_line_dicts_Inr)
  have dG: "distinct (map g_product_id ?G)"
    by (rule dist_arr) (rule distinct_read_group)
  have fold0: "fold (\<lambda>line d. AList.update (v_product_id line) line d) (map found_line ?G) [] = ?d0"
    using dG by (subst fold_update_fresh) (simp_all add: comp_def)
  have res: "find_move_line_with arrange e w src dst =
      Inr (if show_all_partner_products w \<or> show_all_products w then ?d1 else ?d0)"
    unfolding find_move_line_with_def Let_def dicts sum.case fold0 shown_products_def by simp
  have "set ?ps \<inter> fst ` set ?d0 = {}" by auto
  from fold_update_append [OF this, of product_only "[]"]
  obtain rest where rest: "?d1 = ?d0 @ rest"
    "list_all (\<lambda>entry. snd entry = product_only (fst entry)) rest"
    by auto
  show ?thesis
  proof (cases "show_all_partner_products w \<or> show_all_products w")
    case True
    with res rest show ?thesis by auto
  next
    case False
    with res have "find_move_line_with arrange e w src dst = Inr (?d0 @ [])" by simp
    then show ?thesis by (intro exI [of _ "[]"]) simp
  qed
qed

lemma busy_rows_eq: "action_show_results busy_env example_wizard [] = Inr busy_rows"
  by code_simp

lemma busy_rows_unsorted_eq:
  "action_show_results_unsorted busy_env example_wizard [] = Inr (rev busy_rows)"
  by code_simp

section \<open>Properties of the wizard\<close>

text \<open>
  C1, as amended. For every request whose start date is not after its end date, the
  division of \<^verbatim>\<open>_prepare_wizard_line\<close> is never by zero, in a single row and in the
  whole action; and either the end date is the last day of the calendar, where adding one
  day raises \<^verbatim>\<open>OverflowError\<close>, or the number of days is
  \<open>date_end - date_begin + 1\<close>, at least 1, and the average of a row is its delivered
  quantity divided by that number.
\<close>

theorem total_days_at_least_one:
  assumes "date_begin w \<le> date_end w"
  shows "prepare_wizard_line e w v \<noteq> Inl ZeroDivisionError
     \<and> action_show_results e w table \<noteq> Inl ZeroDivisionError
     \<and> (date_max \<le> date_end w \<and> get_total_days w = Inl OverflowError
        \<or> get_total_days w = Inr (date_end w - date_begin w + 1)
          \<and> 1 \<le> date_end w - date_begin w + 1
          \<and> (\<exists>r. prepare_wizard_line e w v = Inr r
                \<and> units_avg_delivered r
                    = get_qty (v_qty_delivered v) / of_int (date_end w - date_begin w + 1)))"
proof -
  have days: "1 \<le> date_end w - date_begin w + 1"
    using assms by simp
  have prep: "prepare_wizard_line e w v \<noteq> Inl ZeroDivisionError" for v
    using days by (subst prepare_wizard_line_cases) (simp add: get_total_days_eq)
  from action_show_results_create [of e w table] obtain R D
    where act: "action_show_results e w table
          = create_lines e w (fold merge_delivered D (set_received R)) []"
    by blast
  have action: "action_show_results e w table \<noteq> Inl ZeroDivisionError"
    using days by (simp add: act create_lines_cases get_total_days_eq)
  show ?thesis
  proof (cases "date_max \<le> date_end w")
    case True
    with prep action show ?thesis by (simp add: get_total_days_eq)
  next
    case False
    then have d: "get_total_days w = Inr (date_end w - date_begin w + 1)"
      by (simp add: get_total_days_eq)
    from days have "date_end w - date_begin w + 1 \<noteq> 0" by simp
    from prepare_wizard_line_avg [OF d this, of e v]
    have "\<exists>r. prepare_wizard_line e w v = Inr r
                \<and> units_avg_delivered r
                    = get_qty (v_qty_delivered v) / of_int (date_end w - date_begin w + 1)"
      by blast
    with prep action d days show ?thesis by blast
  qed
qed

text \<open>The sample request: three days, 30 units delivered, 10 a day.\<close>

theorem total_days_at_least_one_witness:
  "date_begin example_wizard \<le> date_end example_wizard
   \<and> get_total_days example_wizard = Inr 3
   \<and> (\<exists>r. prepare_wizard_line example_env example_wizard
              (product_only 101\<lparr>v_qty_delivered := Some 30\<rparr>) = Inr r
         \<and> units_avg_delivered r = 10)"
proof -
  have h: "date_begin example_wizard \<le> date_end example_wizard"
    by (simp add: example_wizard_def)
  have "\<not> date_max \<le> date_end example_wizard"
    by (simp add: example_wizard_def date_max_def)
  with total_days_at_least_one [OF h, of example_env "product_only 101\<lparr>v_qty_delivered := Some 30\<rparr>" "[]"]
  have "get_total_days example_wizard = Inr 3
   \<and> (\<exists>r. prepare_wizard_line example_env example_wizard
              (product_only 101\<lparr>v_qty_delivered := Some 30\<rparr>) = Inr r
         \<and> units_avg_delivered r = 10)"
    by (simp add: example_wizard_def get_qty_def)
  with h show ?thesis by blast
qed

text \<open>
  C1 as stated fails: nothing keeps the end date from being before the start date. With
  the end date one day before the start date the number of days is 0, and the row of any
  product, and with it the action, raises \<^verbatim>\<open>ZeroDivisionError\<close>.
\<close>

theorem total_days_counterexample:
  "get_total_days reversed_wizard = Inr 0
   \<and> prepare_wizard_line example_env reversed_wizard (product_only 101) = Inl ZeroDivisionError
   \<and> action_show_results example_env reversed_wizard [] = Inl ZeroDivisionError"
  by code_simp

text \<open>
  C2, as amended. \<^verbatim>\<open>_find_move_line\<close> always returns a dictionary, with one entry for a
  product at most. The entry of a product with movements holds the number of the ledger
  lines and the sum of their \<^verbatim>\<open>qty_done\<close>, over the lines that are done, whose product
  is among the products of \<^verbatim>\<open>_get_products\<close> (those of the vendor, after the
  category filter), whose date is in the window from the start of the start date to the
  end of the end date, whose source and destination usages are the given pair and, when
  warehouses are selected, whose transfer belongs to one of them. The purchasable
  products added by the show-all flag are not part of the query: like the vendor's
  products without movements, they only get an entry without count and quantity.
\<close>

theorem find_move_line_aggregates:
  "\<exists>d. find_move_line e w src dst = Inr d \<and> distinct (map fst d) \<and>
     (\<forall>p. map_of d p =
        (let lines =
               filter (\<lambda>ml. ml_product_id ml = p
                           \<and> ml_product_id ml \<in> set (get_products e w)
                           \<and> ml_state ml = ''done''
                           \<and> combine (date_begin w) time_min \<le> ml_date ml
                           \<and> ml_date ml \<le> combine (date_end w) time_max
                           \<and> ml_location_usage ml = src
                           \<and> ml_location_dest_usage ml = dst
                           \<and> (warehouse_ids w = []
                              \<or> (\<exists>wh \<in> set (warehouse_ids w). ml_warehouse_id ml = Some wh)))
                 (move_line_table e)
         in if lines \<noteq> []
            then Some \<lparr>v_id = Some p, v_product_id = p,
                       v_product_id_count = Some (length lines),
                       v_qty_done = Some (sum_list (map ml_qty_done lines)),
                       v_qty_received = None, v_times_received = None,
                       v_qty_delivered = None, v_times_delivered = None\<rparr>
            else if (show_all_partner_products w \<or> show_all_products w)
                    \<and> (p \<in> set (get_products e w)
                       \<or> show_all_products w \<and> p \<in> set (product_table e) \<and> active e p
                          \<and> purchase_ok e p
                          \<and> (product_category_ids w = []
                             \<or> categ_id e p \<in> set (product_category_ids w)))
            then Some (product_only p)
            else None))"
proof -
  from find_move_line_with_lookup [where arrange = manual_ordering and e = e and w = w
      and src = src and dst = dst, OF manual_ordering_arr]
  obtain d where d: "find_move_line e w src dst = Inr d" "distinct (map fst d)"
    and look: "\<And>p. map_of d p =
       (if movements e w src dst p \<noteq> []
        then Some (found_line
               \<lparr>g_product_id = p,
                g_product_id_count = length (movements e w src dst p),
                g_qty_done = sum_list (map ml_qty_done (movements e w src dst p))\<rparr>)
        else if (show_all_partner_products w \<or> show_all_products w) \<and> p \<in> set (shown_products e w)
        then Some (product_only p)
        else None)"
    unfolding find_move_line_def by blast
  show ?thesis
    by (rule exI [of _ d])
       (simp only: d look movements_eq [symmetric] shown_products_iff found_line_def Let_def
          read_group_result.simps simp_thms)
qed

text \<open>The delivered aggregate of the sample request, for products 101, 102 and 103.\<close>

theorem find_move_line_aggregates_witness:
  "find_move_line example_env example_wizard ''internal'' ''customer'' = Inr example_delivered
   \<and> map_of example_delivered 101
       = Some \<lparr>v_id = Some 101, v_product_id = 101, v_product_id_count = Some 2,
               v_qty_done = Some 30, v_qty_received = None, v_times_received = None,
               v_qty_delivered = None, v_times_delivered = None\<rparr>
   \<and> map_of example_delivered 102 = Some (product_only 102)
   \<and> map_of example_delivered 103 = None"
proof -
  from find_move_line_aggregates [of example_env example_wizard "''internal''" "''customer''"]
  have look: "map_of example_delivered p =
        (let lines =
               filter (\<lambda>ml. ml_product_id ml = p
                           \<and> ml_product_id ml \<in> set (get_products example_env example_wizard)
                           \<and> ml_state ml = ''done''
                           \<and> combine (date_begin example_wizard) time_min \<le> ml_date ml
                           \<and> ml_date ml \<le> combine (date_end example_wizard) time_max
                           \<and> ml_location_usage ml = ''internal''
                           \<and> ml_location_dest_usage ml = ''customer''
                           \<and> (warehouse_ids example_wizard = []
                              \<or> (\<exists>wh \<in> set (warehouse_ids example_wizard). ml_warehouse_id ml = Some wh)))
                 (move_line_table example_env)
         in if lines \<noteq> []
            then Some \<lparr>v_id = Some p, v_product_id = p,
                       v_product_id_count = Some (length lines),
                       v_qty_done = Some (sum_list (map ml_qty_done lines)),
                       v_qty_received = None, v_times_received = None,
                       v_qty_delivered = None, v_times_delivered = None\<rparr>
            else if (show_all_partner_products example_wizard \<or> show_all_products example_wizard)
                    \<and> (p \<in> set (get_products example_env example_wizard)
                       \<or> show_all_products example_wizard \<and> p \<in> set (product_table example_env)
                          \<and> active example_env p
                          \<and> purchase_ok example_env p
                          \<and> (product_category_ids example_wizard = []
                             \<or> categ_id example_env p \<in> set (product_category_ids example_wizard)))
            then Some (product_only p)
            else None)" for p
    by (simp only: example_delivered_eq) simp
  have "map_of example_delivered 101
       = Some \<lparr>v_id = Some 101, v_product_id = 101, v_product_id_count = Some 2,
               v_qty_done = Some 30, v_qty_received = None, v_times_received = None,
               v_qty_delivered = None, v_times_delivered = None\<rparr>"
    by (subst look) code_simp
  moreover have "map_of example_delivered 102 = Some (product_only 102)"
    by (subst look) code_simp
  moreover have "map_of example_delivered 103 = None"
    by (subst look) code_simp
  ultimately show ?thesis
    using example_delivered_eq by blast
qed

text \<open>
  C2 as stated fails: the domain is built from the products of the vendor before the
  purchasable products are added. In the request for all purchasable products, product
  103 is purchasable and has one done delivery in the window, and its entry has no count
  and no quantity.
\<close>

theorem find_move_line_counterexample:
  "show_all_products all_products_wizard
   \<and> 103 \<in> set (search_products example_env (get_all_products_domain all_products_wizard))
   \<and> length (filter (\<lambda>ml. ml_product_id ml = 103
                 \<and> ml_state ml = ''done''
                 \<and> combine (date_begin all_products_wizard) time_min \<le> ml_date ml
                 \<and> ml_date ml \<le> combine (date_end all_products_wizard) time_max
                 \<and> ml_location_usage ml = ''internal''
                 \<and> ml_location_dest_usage ml = ''customer'')
       (move_line_table example_env)) = 1
   \<and> find_move_line example_env all_products_wizard ''internal'' ''customer''
       = Inr [(101, product_only 101), (102, product_only 102), (103, product_only 103)]"
  by code_simp

text \<open>
  C3. For every product that is a key of the received aggregate or of the delivered
  aggregate, or that the show-all expansion covers, the action completes (the day count
  being computed and not zero) and its report has exactly one row for the product; the
  received and delivered counts and quantities of the row are those of the two
  aggregates, zero on a side where the product has no count.
\<close>

theorem one_row_per_product:
  assumes R: "find_move_line e w ''supplier'' ''internal'' = Inr received"
    and D: "find_move_line e w ''internal'' ''customer'' = Inr delivered"
    and days: "get_total_days w = Inr d" "d \<noteq> 0"
    and p: "p \<in> fst ` set received \<or> p \<in> fst ` set delivered
            \<or> (show_all_partner_products w \<or> show_all_products w) \<and> p \<in> set (shown_products e w)"
  shows "\<exists>rows. action_show_results e w table = Inr rows
     \<and> (\<exists>r. filter (\<lambda>r. line_product_id r = p) rows = [r]
     \<and> times_received r = (case map_of received p of None \<Rightarrow> 0 | Some l \<Rightarrow> get_times (v_product_id_count l))
     \<and> units_received r = (case map_of received p of None \<Rightarrow> 0 | Some l \<Rightarrow> get_qty (v_qty_done l))
     \<and> times_delivered r = (case map_of delivered p of None \<Rightarrow> 0 | Some l \<Rightarrow> get_times (v_product_id_count l))
     \<and> units_delivered r = (case map_of delivered p of None \<Rightarrow> 0 | Some l \<Rightarrow> get_qty (v_qty_done l)))"
proof -
  from action_show_results_completes [OF days, of e table] obtain rows
    where rows: "action_show_results e w table = Inr rows"
    by blast
  note R' = R [unfolded find_move_line_def]
  note D' = D [unfolded find_move_line_def]
  note rows' = rows [unfolded action_show_results_def]
  note A = action_rows [where arrange = manual_ordering, OF manual_ordering_arr R' D' rows']
  from p find_move_line_keys [OF manual_ordering_arr R', of p]
  have "p \<in> fst ` set received \<union> fst ` set delivered" by auto
  then have "p \<in> line_product_id ` set rows" by (simp only: A(4))
  then obtain r where r: "r \<in> set rows" and k: "line_product_id r = p" by auto
  from filter_distinct_key [OF A(3) r] k
  have "filter (\<lambda>r. line_product_id r = p) rows = [r]" by simp
  with A(5) [OF r] k rows show ?thesis by auto
qed

text \<open>The sample request: the one row of product 101, reachable directly and by its template.\<close>

theorem one_row_per_product_witness:
  "find_move_line example_env example_wizard ''supplier'' ''internal'' = Inr example_received
   \<and> find_move_line example_env example_wizard ''internal'' ''customer'' = Inr example_delivered
   \<and> get_total_days example_wizard = Inr 3
   \<and> 101 \<in> fst ` set example_delivered
   \<and> action_show_results example_env example_wizard [] = Inr example_rows
   \<and> (\<exists>r. filter (\<lambda>r. line_product_id r = 101) example_rows = [r]
        \<and> times_received r = 0 \<and> units_received r = 0
        \<and> times_delivered r = 2 \<and> units_delivered r = 30)"
proof -
  have p: "101 \<in> fst ` set example_delivered"
    by (simp add: example_delivered_def)
  then have p': "101 \<in> fst ` set example_received \<or> 101 \<in> fst ` set example_delivered
      \<or> (show_all_partner_products example_wizard \<or> show_all_products example_wizard)
         \<and> 101 \<in> set (shown_products example_env example_wizard)"
    by simp
  have "(3::int) \<noteq> 0" by simp
  from one_row_per_product [OF example_received_eq example_delivered_eq example_days this p',
      of "[]"]
  have "\<exists>r. filter (\<lambda>r. line_product_id r = 101) example_rows = [r]
        \<and> times_received r = 0 \<and> units_received r = 0
        \<and> times_delivered r = 2 \<and> units_delivered r = 30"
    by (simp add: example_rows_eq example_received_def example_delivered_def found_line_def
        product_only_def get_times_def get_qty_def)
  with p example_received_eq example_delivered_eq example_rows_eq example_days show ?thesis
    by blast
qed

text \<open>
  C4. The action first deletes every row of the table; when it completes, the number of
  rows is the number of distinct products of the two aggregates of this request, and the
  rows are the same whatever the table held before.
\<close>

theorem report_replaced:
  assumes R: "find_move_line e w ''supplier'' ''internal'' = Inr received"
    and D: "find_move_line e w ''internal'' ''customer'' = Inr delivered"
    and rows: "action_show_results e w table = Inr rows"
  shows "unlink (search_all table) table = []
     \<and> length rows = card (fst ` set received \<union> fst ` set delivered)
     \<and> action_show_results e w previous = Inr rows"
proof -
  note R' = R [unfolded find_move_line_def]
  note D' = D [unfolded find_move_line_def]
  note rows' = rows [unfolded action_show_results_def]
  note A = action_rows [where arrange = manual_ordering, OF manual_ordering_arr R' D' rows']
  have "length rows = length (map line_product_id rows)" by simp
  also have "\<dots> = card (set (map line_product_id rows))"
    using A(3) by (simp only: distinct_card)
  also have "\<dots> = card (fst ` set received \<union> fst ` set delivered)"
    using A(4) by simp
  finally have len: "length rows = card (fst ` set received \<union> fst ` set delivered)" .
  from action_show_results_with_eq [where arrange = manual_ordering and e = e and w = w and table = table,
      OF manual_ordering_arr]
    action_show_results_with_eq [where arrange = manual_ordering and e = e and w = w and table = previous,
      OF manual_ordering_arr]
  have "action_show_results e w previous = action_show_results e w table"
    unfolding action_show_results_def by auto
  with len rows show ?thesis by (simp add: unlink_search_all)
qed

text \<open>The sample request, run on an empty table and on a table holding its own rows.\<close>

theorem report_replaced_witness:
  "find_move_line example_env example_wizard ''supplier'' ''internal'' = Inr example_received
   \<and> find_move_line example_env example_wizard ''internal'' ''customer'' = Inr example_delivered
   \<and> action_show_results example_env example_wizard [] = Inr example_rows
   \<and> length example_rows = 2
   \<and> action_show_results example_env example_wizard example_rows = Inr example_rows"
proof -
  from report_replaced [OF example_received_eq example_delivered_eq example_rows_eq,
      of example_rows]
  have "length example_rows = 2
     \<and> action_show_results example_env example_wizard example_rows = Inr example_rows"
    by (simp add: example_received_def example_delivered_def insert_commute)
  with example_received_eq example_delivered_eq example_rows_eq show ?thesis
    by blast
qed

text \<open>
  C5. When the flag for all purchasable products is set, the onchange handler puts the
  flag for all vendor products to false and empties the vendor.
\<close>

theorem onchange_show_all_products_exclusive:
  assumes "show_all_products w"
  shows "\<not> show_all_partner_products (onchange_show_all_products w)
     \<and> partner_id (onchange_show_all_products w) = None
     \<and> show_all_products (onchange_show_all_products w)"
  using assms by (simp add: onchange_show_all_products_def)

text \<open>The sample request with the flag set.\<close>

theorem onchange_show_all_products_exclusive_witness:
  "show_all_products (example_wizard\<lparr>show_all_products := True\<rparr>)
   \<and> \<not> show_all_partner_products
         (onchange_show_all_products (example_wizard\<lparr>show_all_products := True\<rparr>))
   \<and> partner_id (onchange_show_all_products (example_wizard\<lparr>show_all_products := True\<rparr>)) = None
   \<and> show_all_products (onchange_show_all_products (example_wizard\<lparr>show_all_products := True\<rparr>))"
proof -
  have h: "show_all_products (example_wizard\<lparr>show_all_products := True\<rparr>)"
    by simp
  from h onchange_show_all_products_exclusive [OF h] show ?thesis
    by blast
qed

text \<open>
  C6. With the flag for all vendor products set and the flag for all purchasable products
  not set, every product that an association of the vendor's commercial entity names,
  as an active purchasable variant or as a variant of an active purchasable template, and
  that passes the category filter, has exactly one row in the report, which the action
  completes with (the day count being computed and not zero); without received movements
  its received count and quantity are zero, and without delivered movements its
  delivered count, quantity and daily average are zero.
\<close>

theorem vendor_products_shown:
  assumes flags: "show_all_partner_products w" "\<not> show_all_products w"
    and vendor: "partner_id w = Some v"
    and assoc: "\<exists>si \<in> set (supplierinfo_table e).
              si_name si = commercial_partner_id e v
              \<and> (si_product_id si = Some p \<and> active e p \<and> purchase_ok e p
                 \<or> (\<exists>t. si_product_tmpl_id si = Some t \<and> tmpl_active e t \<and> tmpl_purchase_ok e t
                        \<and> p \<in> set (product_variant_ids e t)))"
    and categ: "product_category_ids w = [] \<or> categ_id e p \<in> set (product_category_ids w)"
    and days: "get_total_days w = Inr d" "d \<noteq> 0"
  shows "\<exists>rows. action_show_results e w table = Inr rows
     \<and> (\<exists>r. filter (\<lambda>r. line_product_id r = p) rows = [r]
     \<and> (movements e w ''supplier'' ''internal'' p = []
          \<longrightarrow> times_received r = 0 \<and> units_received r = 0)
     \<and> (movements e w ''internal'' ''customer'' p = []
          \<longrightarrow> times_delivered r = 0 \<and> units_delivered r = 0 \<and> units_avg_delivered r = 0))"
proof -
  from action_show_results_completes [OF days, of e table] obtain rows
    where rows: "action_show_results e w table = Inr rows"
    by blast
  from action_show_results_create [of e w table] obtain R D
    where R: "find_move_line_with manual_ordering e w ''supplier'' ''internal'' = Inr R"
      and D: "find_move_line_with manual_ordering e w ''internal'' ''customer'' = Inr D"
      and act: "action_show_results e w table
          = create_lines e w (fold merge_delivered D (set_received R)) []"
    unfolding find_move_line_def by blast
  note rows' = rows [unfolded action_show_results_def]
  note A = action_rows [where arrange = manual_ordering, OF manual_ordering_arr R D rows']
  from vendor assoc categ have "p \<in> set (get_products e w)"
    by (simp only: get_products_iff) blast
  then have "p \<in> set (shown_products e w)"
    by (simp add: shown_products_iff)
  with flags(1) find_move_line_keys [OF manual_ordering_arr R, of p]
  have "p \<in> fst ` set R \<union> fst ` set D" by simp
  then have "p \<in> line_product_id ` set rows" by (simp only: A(4))
  then obtain r where r: "r \<in> set rows" and k: "line_product_id r = p" by auto
  from filter_distinct_key [OF A(3) r] k
  have one: "filter (\<lambda>r. line_product_id r = p) rows = [r]" by simp
  note fields = A(5) [OF r, unfolded k]
  have recv: "times_received r = 0 \<and> units_received r = 0"
    if "movements e w ''supplier'' ''internal'' p = []"
    using fields find_move_line_no_movement [OF manual_ordering_arr R that] by simp
  from rows act have "create_lines e w (fold merge_delivered D (set_received R)) [] = Inr rows"
    by simp
  from create_lines_row [OF this r] obtain entry :: "nat \<times> vals"
    where "prepare_wizard_line e w (snd entry) = Inr r"
    by blast
  note avg = prepare_wizard_line_avg_zero [OF this]
  have deliv: "times_delivered r = 0 \<and> units_delivered r = 0 \<and> units_avg_delivered r = 0"
    if "movements e w ''internal'' ''customer'' p = []"
  proof -
    from fields find_move_line_no_movement [OF manual_ordering_arr D that]
    have "times_delivered r = 0 \<and> units_delivered r = 0" by simp
    with avg show ?thesis by simp
  qed
  from one recv deliv rows show ?thesis by blast
qed

text \<open>The sample request: product 102 has no delivery and one row.\<close>

theorem vendor_products_shown_witness:
  "show_all_partner_products example_wizard \<and> \<not> show_all_products example_wizard
   \<and> partner_id example_wizard = Some 1
   \<and> get_total_days example_wizard = Inr 3
   \<and> movements example_env example_wizard ''internal'' ''customer'' 102 = []
   \<and> action_show_results example_env example_wizard [] = Inr example_rows
   \<and> (\<exists>r. filter (\<lambda>r. line_product_id r = 102) example_rows = [r]
         \<and> times_delivered r = 0 \<and> units_delivered r = 0 \<and> units_avg_delivered r = 0)"
proof -
  have f1: "show_all_partner_products example_wizard"
    and f2: "\<not> show_all_products example_wizard"
    and v: "partner_id example_wizard = Some 1"
    and c: "product_category_ids example_wizard = []
            \<or> categ_id example_env 102 \<in> set (product_category_ids example_wizard)"
    by (simp_all add: example_wizard_def)
  have a: "\<exists>si \<in> set (supplierinfo_table example_env).
              si_name si = commercial_partner_id example_env 1
              \<and> (si_product_id si = Some 102 \<and> active example_env 102 \<and> purchase_ok example_env 102
                 \<or> (\<exists>t. si_product_tmpl_id si = Some t \<and> tmpl_active example_env t
                        \<and> tmpl_purchase_ok example_env t
                        \<and> 102 \<in> set (product_variant_ids example_env t)))"
    by (simp add: example_env_def)
  have m: "movements example_env example_wizard ''internal'' ''customer'' 102 = []"
    by code_simp
  have "(3::int) \<noteq> 0" by simp
  from vendor_products_shown [OF f1 f2 v a c example_days this, of "[]"] m
  have "\<exists>r. filter (\<lambda>r. line_product_id r = 102) example_rows = [r]
         \<and> times_delivered r = 0 \<and> units_delivered r = 0 \<and> units_avg_delivered r = 0"
    by (simp add: example_rows_eq) blast
  with f1 f2 v m example_rows_eq example_days show ?thesis by blast
qed

text \<open>
  C7, as amended. For a product without any vendor-product association, at variant or at
  template level, the seller resolver returns the empty seller; every row built for the
  product has price 0, no currency and no vendor; an error of the row computation is
  always one of the day count (\<^verbatim>\<open>OverflowError\<close> from the day count itself, or
  \<^verbatim>\<open>ZeroDivisionError\<close> when the day count is 0), never one of the missing
  seller; and on a request whose start date is not after its end date, the end date
  before the last day of the calendar, the row is built without an error.
\<close>

theorem no_seller_row:
  assumes none: "\<forall>si \<in> set (supplierinfo_table e). \<not> seller_for_product e (v_product_id v) si"
  shows "select_seller e (v_product_id v) (partner_id w) (today e) 1 = None
     \<and> (\<forall>r. prepare_wizard_line e w v = Inr r
            \<longrightarrow> price_unit r = 0 \<and> line_currency_id r = None \<and> line_partner_id r = None)
     \<and> (\<forall>err. prepare_wizard_line e w v = Inl err
            \<longrightarrow> get_total_days w = Inl err
                \<or> get_total_days w = Inr 0 \<and> err = ZeroDivisionError)
     \<and> (date_begin w \<le> date_end w \<and> date_end w < date_max
          \<longrightarrow> (\<exists>r. prepare_wizard_line e w v = Inr r
                 \<and> price_unit r = 0 \<and> line_currency_id r = None \<and> line_partner_id r = None))"
proof -
  have sel: "select_seller e (v_product_id v) (partner_id w) (today e) 1 = None"
    using none by (auto simp: select_seller_def find_None_iff)
  have fields: "price_unit r = 0 \<and> line_currency_id r = None \<and> line_partner_id r = None"
    if "prepare_wizard_line e w v = Inr r" for r
    using that sel
    by (auto simp: prepare_wizard_line_def Let_def truediv_def split: sum.splits if_splits)
  have errs: "get_total_days w = Inl err \<or> get_total_days w = Inr 0 \<and> err = ZeroDivisionError"
    if "prepare_wizard_line e w v = Inl err" for err
    using that by (subst (asm) prepare_wizard_line_cases) (auto split: sum.splits if_splits)
  have row: "\<exists>r. prepare_wizard_line e w v = Inr r
                 \<and> price_unit r = 0 \<and> line_currency_id r = None \<and> line_partner_id r = None"
    if "date_begin w \<le> date_end w \<and> date_end w < date_max"
  proof -
    from that have d: "get_total_days w = Inr (date_end w - date_begin w + 1)"
      and nz: "date_end w - date_begin w + 1 \<noteq> 0"
      by (simp_all add: get_total_days_eq)
    from prepare_wizard_line_avg [OF d nz, of e v] obtain r
      where "prepare_wizard_line e w v = Inr r" by blast
    with fields [OF this] show ?thesis by blast
  qed
  from sel fields errs row show ?thesis by blast
qed

text \<open>Product 103 of the sample database has no vendor.\<close>

theorem no_seller_row_witness:
  "list_all (\<lambda>si. \<not> seller_for_product example_env 103 si) (supplierinfo_table example_env)
   \<and> date_begin all_products_wizard \<le> date_end all_products_wizard
   \<and> date_end all_products_wizard < date_max
   \<and> select_seller example_env 103 None 738010 1 = None
   \<and> (\<exists>r. prepare_wizard_line example_env all_products_wizard (product_only 103) = Inr r
           \<and> price_unit r = 0 \<and> line_currency_id r = None \<and> line_partner_id r = None)"
proof -
  have none: "list_all (\<lambda>si. \<not> seller_for_product example_env 103 si) (supplierinfo_table example_env)"
    by (simp add: example_env_def seller_for_product_def)
  then have none': "\<forall>si \<in> set (supplierinfo_table example_env).
      \<not> seller_for_product example_env (v_product_id (product_only 103)) si"
    by (simp add: list_all_iff product_only_def)
  have days: "date_begin all_products_wizard \<le> date_end all_products_wizard"
    "date_end all_products_wizard < date_max"
    by (simp_all add: all_products_wizard_def date_max_def)
  from no_seller_row [OF none', of all_products_wizard] days
  have "select_seller example_env 103 None 738010 1 = None
   \<and> (\<exists>r. prepare_wizard_line example_env all_products_wizard (product_only 103) = Inr r
           \<and> price_unit r = 0 \<and> line_currency_id r = None \<and> line_partner_id r = None)"
    by (simp add: product_only_def all_products_wizard_def example_env_def)
  with none days show ?thesis by blast
qed

text \<open>
  C7 as stated fails: the row of a product without a vendor is not built without an
  error on every request. With the end date one day before the start date, the row of
  product 103, and with it the action that shows every purchasable product, raises
  \<^verbatim>\<open>ZeroDivisionError\<close>.
\<close>

theorem no_seller_row_counterexample:
  "list_all (\<lambda>si. \<not> seller_for_product example_env 103 si) (supplierinfo_table example_env)
   \<and> select_seller example_env 103 (partner_id (all_products_wizard\<lparr>date_end := 737999\<rparr>))
         (today example_env) 1 = None
   \<and> prepare_wizard_line example_env (all_products_wizard\<lparr>date_end := 737999\<rparr>)
         (product_only 103) = Inl ZeroDivisionError
   \<and> action_show_results example_env (all_products_wizard\<lparr>date_end := 737999\<rparr>) []
         = Inl ZeroDivisionError"
  by code_simp

text \<open>
  C8. Without a vendor and without the flag for all purchasable products, whatever the
  flag for all vendor products, the candidate products are empty, both aggregates are
  empty and the action completes with an empty report.
\<close>

theorem no_vendor_empty_report:
  assumes "partner_id w = None" and "\<not> show_all_products w"
  shows "get_products e w = []
     \<and> find_move_line e w ''supplier'' ''internal'' = Inr []
     \<and> find_move_line e w ''internal'' ''customer'' = Inr []
     \<and> action_show_results e w table = Inr []"
proof -
  have sup: "get_supplier_products e w = []"
    using assms(1) by (simp add: get_supplier_products_def union_ids_def)
  then have prods: "get_products e w = []"
    by (simp add: get_products_def)
  have found: "find_move_line e w src dst = Inr []" for src dst
  proof -
    have "read_group e (get_move_line_domain w [] src dst) = []"
      by (simp add: read_group_def get_move_line_domain_def domain_holds_def)
    then show ?thesis
      using assms(2)
      by (simp add: find_move_line_def find_move_line_with_def prods manual_ordering_def)
  qed
  have "action_show_results e w table = Inr []"
    by (simp add: action_show_results_def action_show_results_with_def found [unfolded find_move_line_def]
        set_received_def unlink_search_all)
  with prods found show ?thesis by simp
qed

text \<open>The sample request without its vendor, the flag for all vendor products set.\<close>

theorem no_vendor_empty_report_witness:
  "partner_id (example_wizard\<lparr>partner_id := None\<rparr>) = None
   \<and> \<not> show_all_products (example_wizard\<lparr>partner_id := None\<rparr>)
   \<and> show_all_partner_products (example_wizard\<lparr>partner_id := None\<rparr>)
   \<and> get_products example_env (example_wizard\<lparr>partner_id := None\<rparr>) = []
   \<and> action_show_results example_env (example_wizard\<lparr>partner_id := None\<rparr>) example_rows = Inr []"
proof -
  have h1: "partner_id (example_wizard\<lparr>partner_id := None\<rparr>) = None" by simp
  have h2: "\<not> show_all_products (example_wizard\<lparr>partner_id := None\<rparr>)"
    by (simp add: example_wizard_def)
  have h3: "show_all_partner_products (example_wizard\<lparr>partner_id := None\<rparr>)"
    by (simp add: example_wizard_def)
  from no_vendor_empty_report [OF h1 h2, of example_env example_rows] h1 h2 h3
  show ?thesis by blast
qed

text \<open>
  C9, as amended. The dictionary that \<^verbatim>\<open>_find_move_line\<close> returns starts with the
  entries of the intermediate list, which the manual ordering has put in descending
  order of (count, quantity), followed by entries without count and quantity. The rows
  of a completed action are read in the platform's order of their products, each product
  once, and are the rows created. The action with the manual ordering and the action
  without it end alike: with the same exception or with the same set of rows, and, for
  every order of the products that puts no two products at the same place, with the same
  report as read.
\<close>

theorem ordering_is_cosmetic:
  "(\<exists>rest. find_move_line e w src dst
        = Inr (map (\<lambda>x. (g_product_id x, found_line x))
                 (manual_ordering
                    (read_group e (get_move_line_domain w (get_products e w) src dst)))
               @ rest)
      \<and> list_all (\<lambda>entry. snd entry = product_only (fst entry)) rest)
   \<and> sorted (rev (map (\<lambda>res. (g_product_id_count res, g_qty_done res))
                   (manual_ordering
                      (read_group e (get_move_line_domain w (get_products e w) src dst)))))
   \<and> (\<forall>rows. action_show_results e w table = Inr rows \<longrightarrow>
         sorted (map (\<lambda>r. product_order (line_product_id r)) (search_lines product_order rows))
         \<and> distinct (map line_product_id (search_lines product_order rows))
         \<and> set (search_lines product_order rows) = set rows)
   \<and> map_sum id set (action_show_results e w table)
       = map_sum id set (action_show_results_unsorted e w table)
   \<and> (inj product_order \<longrightarrow>
         map_sum id (search_lines product_order) (action_show_results e w table)
           = map_sum id (search_lines product_order) (action_show_results_unsorted e w table))"
proof -
  have shape: "\<exists>rest. find_move_line e w src dst
        = Inr (map (\<lambda>x. (g_product_id x, found_line x))
                 (manual_ordering
                    (read_group e (get_move_line_domain w (get_products e w) src dst)))
               @ rest)
      \<and> list_all (\<lambda>entry. snd entry = product_only (fst entry)) rest"
    unfolding find_move_line_def
    by (rule find_move_line_with_shape [OF manual_ordering_arr])
  have read: "sorted (map (\<lambda>r. product_order (line_product_id r)) (search_lines product_order rows))
         \<and> distinct (map line_product_id (search_lines product_order rows))
         \<and> set (search_lines product_order rows) = set rows"
    if rows: "action_show_results e w table = Inr rows" for rows
  proof -
    from action_show_results_create [of e w table] obtain R D
      where R: "find_move_line_with manual_ordering e w ''supplier'' ''internal'' = Inr R"
        and D: "find_move_line_with manual_ordering e w ''internal'' ''customer'' = Inr D"
      unfolding find_move_line_def by blast
    note rows' = rows [unfolded action_show_results_def]
    from action_rows(3) [where arrange = manual_ordering, OF manual_ordering_arr R D rows']
    have "distinct (map line_product_id (search_lines product_order rows))"
      by (simp add: search_lines_def distinct_map)
    moreover have "sorted (map (\<lambda>r. product_order (line_product_id r)) (search_lines product_order rows))"
      unfolding search_lines_def by (rule sorted_sort_key)
    ultimately show ?thesis by (simp add: search_lines_def)
  qed
  have sets: "map_sum id set (action_show_results e w table)
       = map_sum id set (action_show_results_unsorted e w table)"
    unfolding action_show_results_def action_show_results_unsorted_def
    by (rule action_show_results_with_equiv(1) [OF manual_ordering_arr unsorted_arr])
  have reads: "map_sum id (search_lines product_order) (action_show_results e w table)
           = map_sum id (search_lines product_order) (action_show_results_unsorted e w table)"
    if "inj product_order"
    unfolding action_show_results_def action_show_results_unsorted_def
    by (rule action_show_results_with_equiv(2) [OF manual_ordering_arr unsorted_arr that])
  from shape manual_ordering_descending read sets reads show ?thesis by blast
qed

text \<open>The second sample ledger, the products ordered by identity: the two pipelines create the rows in opposite orders.\<close>

theorem ordering_is_cosmetic_witness:
  "inj (\<lambda>product::nat. product)
   \<and> action_show_results busy_env example_wizard [] = Inr busy_rows
   \<and> action_show_results_unsorted busy_env example_wizard [] = Inr (rev busy_rows)
   \<and> search_lines (\<lambda>product. product) busy_rows = search_lines (\<lambda>product. product) (rev busy_rows)
   \<and> sorted (map line_product_id (search_lines (\<lambda>product. product) busy_rows))
   \<and> search_lines (\<lambda>product. product) busy_rows = rev busy_rows"
proof -
  have i: "inj (\<lambda>product::nat. product)" by simp
  note inst = ordering_is_cosmetic [where e = busy_env and w = example_wizard and table = "[]"
      and product_order = "\<lambda>product::nat. product" and src = "''supplier''" and dst = "''internal''"]
  from inst busy_rows_eq
  have "sorted (map line_product_id (search_lines (\<lambda>product. product) busy_rows))"
    by blast
  moreover from inst i
  have "map_sum id (search_lines (\<lambda>product. product)) (action_show_results busy_env example_wizard [])
      = map_sum id (search_lines (\<lambda>product. product))
          (action_show_results_unsorted busy_env example_wizard [])"
    by blast
  then have "search_lines (\<lambda>product. product) busy_rows
      = search_lines (\<lambda>product. product) (rev busy_rows)"
    by (simp only: busy_rows_eq busy_rows_unsorted_eq map_sum.simps sum.inject)
  moreover have "search_lines (\<lambda>product. product) busy_rows = rev busy_rows"
    by code_simp
  ultimately show ?thesis using i busy_rows_eq busy_rows_unsorted_eq by blast
qed

text \<open>
  C9 as stated fails: the rows are read in the order of their products, which need not
  be the order of the identities. With product 102 before product 101 in the order of
  the products, the report of either pipeline is read as 102, 101.
\<close>

theorem ordering_counterexample:
  "action_show_results busy_env example_wizard [] = Inr busy_rows
   \<and> action_show_results_unsorted busy_env example_wizard [] = Inr (rev busy_rows)
   \<and> map line_product_id (search_lines example_product_order busy_rows) = [102, 101]
   \<and> map line_product_id (search_lines example_product_order (rev busy_rows)) = [102, 101]
   \<and> \<not> sorted (map line_product_id (search_lines example_product_order busy_rows))"
  by code_simp

text \<open>
  C10. Merging the delivered dictionary into \<open>found_dict\<close> leaves the received quantity
  and count of every entry that \<open>found_dict\<close> has: the entry only gets its
  \<^verbatim>\<open>qty_delivered\<close> and \<^verbatim>\<open>times_delivered\<close> keys set.
\<close>

theorem merge_keeps_received:
  assumes "map_of found_dict p = Some cur"
  shows "\<exists>line'. map_of (fold merge_delivered found_delivered_dict found_dict) p = Some line'
     \<and> v_qty_received line' = v_qty_received cur
     \<and> v_times_received line' = v_times_received cur
     \<and> (\<exists>a b. line' = cur\<lparr>v_qty_delivered := a, v_times_delivered := b\<rparr>)"
proof -
  from merge_frame [OF assms, of found_delivered_dict] obtain a b
    where "map_of (fold merge_delivered found_delivered_dict found_dict) p
             = Some (cur\<lparr>v_qty_delivered := a, v_times_delivered := b\<rparr>)"
    by blast
  then show ?thesis by auto
qed

text \<open>The sample request: the received side of product 102 after the merge.\<close>

theorem merge_keeps_received_witness:
  "map_of (set_received example_received) 102
     = Some (found_line \<lparr>g_product_id = 102, g_product_id_count = 1, g_qty_done = 10\<rparr>
              \<lparr>v_qty_received := Some 10, v_times_received := Some 1\<rparr>)
   \<and> (\<exists>line'. map_of (fold merge_delivered example_delivered (set_received example_received)) 102
                = Some line'
        \<and> v_qty_received line' = Some 10
        \<and> v_times_received line' = Some 1)"
proof -
  have h: "map_of (set_received example_received) 102
     = Some (found_line \<lparr>g_product_id = 102, g_product_id_count = 1, g_qty_done = 10\<rparr>
              \<lparr>v_qty_received := Some 10, v_times_received := Some 1\<rparr>)"
    by (simp add: example_received_def set_received_def found_line_def get_qty_def get_times_def)
  from merge_keeps_received [OF h, of example_delivered]
  have "\<exists>line'. map_of (fold merge_delivered example_delivered (set_received example_received)) 102
                = Some line'
        \<and> v_qty_received line' = Some 10
        \<and> v_times_received line' = Some 1"
    by (auto simp: found_line_def)
  with h show ?thesis by blast
qed

end
